theory Spec2Isabelle
  imports Main "HOL-Library.Word"
begin

unbundle bit_operations_syntax

section \<open>natpmpd: the mapping store, the NAT-PMP handler and the announcement timer\<close>

text \<open>
  A shallow embedding of \<^verbatim>\<open>natpmpd.c\<close>. The daemon is single threaded; every function of
  the source becomes a function from the state before the call to the state after it.

  Conventions.
  \<^item> A field that the source keeps in network byte order (\<^verbatim>\<open>sin_port\<close>,
    \<^verbatim>\<open>sin_addr\<close>, the ports and the lifetime of a packet) is represented by the number its
    bytes carry on the wire. \<^verbatim>\<open>htons\<close>, \<^verbatim>\<open>ntohs\<close>, \<^verbatim>\<open>htonl\<close> and \<^verbatim>\<open>ntohl\<close> convert
    between a host number and that representation, so on the model they do not change
    the number. The source only ever compares such a field with zero or copies it.
  \<^item> A \<^verbatim>\<open>struct mapping\<close> lives at an address. The list \<^verbatim>\<open>mappings\<close> is the list of the
    linked objects, head first, each with its address; \<^verbatim>\<open>free\<close> drops the object.
  \<^item> The timer queue of libevent is a map from the address of a mapping to the timeout
    its \<^verbatim>\<open>ev\<close> is pending with.
  \<^item> What the environment decides is a parameter: the value \<^verbatim>\<open>calloc\<close> returns, the
    number drawn by \<^verbatim>\<open>arc4random_uniform\<close>, the clock, the datagram received.
\<close>

subsection \<open>Data\<close>

type_synonym u8 = "8 word"
type_synonym u16 = "16 word"
type_synonym u32 = "32 word"
type_synonym addr = nat

text \<open>\<^verbatim>\<open>struct sockaddr_in\<close> of the BSDs, 16 bytes; \<^verbatim>\<open>memcmp\<close> over the whole struct is
  equality of the record.\<close>

record sockaddr_in =
  sin_len :: u8
  sin_family :: u8
  sin_port :: u16
  sin_addr :: u32
  sin_zero :: "64 word"

record timeval =
  tv_sec :: int
  tv_usec :: int

text \<open>\<^verbatim>\<open>struct mapping\<close>. Its \<^verbatim>\<open>ev\<close> is the entry of the timer queue at the mapping's
  address, its \<^verbatim>\<open>entry\<close> is the position in the list.\<close>

record mapping =
  proto :: u32
  dst :: sockaddr_in
  rdr :: sockaddr_in

type_synonym rule = "u32 \<times> sockaddr_in \<times> sockaddr_in"

text \<open>The global state of the mapping store: the list \<^verbatim>\<open>mappings\<close>, the pending expiry
  timers, and the rule sets handed to the packet filter, one per call of
  \<^verbatim>\<open>rebuild_rules\<close>, latest first.\<close>

record store =
  mappings :: "(addr \<times> mapping) list"
  timers :: "addr \<rightharpoonup> timeval"
  rebuilds :: "rule list list"

datatype fault =
  Fatal          \<comment> \<open>\<^verbatim>\<open>fatal()\<close>: the process exits\<close>
  | Dangling     \<comment> \<open>a callback runs on a mapping that is not in the list\<close>
  | NotPending   \<comment> \<open>a timer that is not pending cannot fire\<close>
  | Overflow     \<comment> \<open>a write past the end of a buffer\<close>
  | UseAfterFree \<comment> \<open>a read of a mapping that has been freed\<close>

subsection \<open>Constants of the system headers\<close>

definition AF_INET :: u8 where "AF_INET = 2"
definition IPPROTO_TCP :: u8 where "IPPROTO_TCP = 6"
definition IPPROTO_UDP :: u8 where "IPPROTO_UDP = 17"
definition IPPORT_HIFIRSTAUTO :: u32 where "IPPORT_HIFIRSTAUTO = 49152"
definition IPPORT_HILASTAUTO :: u32 where "IPPORT_HILASTAUTO = 65535"

definition htons :: "u16 \<Rightarrow> u16" where "htons x = x"
definition ntohl :: "u32 \<Rightarrow> u32" where "ntohl x = x"
definition htonl :: "u32 \<Rightarrow> u32" where "htonl x = x"

text \<open>\<^verbatim>\<open>arc4random_uniform(upper_bound)\<close> of libc returns a number below \<^verbatim>\<open>upper_bound\<close>
  (0 when the bound is below 2): the random 32-bit draw reduced modulo the bound.\<close>

definition arc4random_uniform :: "u32 \<Rightarrow> u32 \<Rightarrow> u32" where
  "arc4random_uniform upper_bound draw = (if upper_bound < 2 then 0 else draw mod upper_bound)"

subsection \<open>Timers and the list\<close>

definition evtimer_pending :: "addr \<Rightarrow> store \<Rightarrow> bool" where
  "evtimer_pending a s = (timers s a \<noteq> None)"

definition evtimer_del :: "addr \<Rightarrow> store \<Rightarrow> store" where
  "evtimer_del a s = s\<lparr>timers := (timers s)(a := None)\<rparr>"

definition evtimer_add :: "addr \<Rightarrow> timeval \<Rightarrow> store \<Rightarrow> store" where
  "evtimer_add a tv s = s\<lparr>timers := (timers s)(a \<mapsto> tv)\<rparr>"

definition LIST_INSERT_HEAD :: "addr \<Rightarrow> mapping \<Rightarrow> store \<Rightarrow> store" where
  "LIST_INSERT_HEAD a m s = s\<lparr>mappings := (a, m) # mappings s\<rparr>"

definition LIST_REMOVE :: "addr \<Rightarrow> store \<Rightarrow> store" where
  "LIST_REMOVE a s = s\<lparr>mappings := filter (\<lambda>x. fst x \<noteq> a) (mappings s)\<rparr>"

text \<open>\<^verbatim>\<open>rebuild_rules\<close> walks the list and hands one redirection per mapping to the packet
  filter. The filter itself (\<^verbatim>\<open>prepare_commit\<close>, \<^verbatim>\<open>add_rdr\<close>, \<^verbatim>\<open>do_commit\<close>,
  \<^verbatim>\<open>do_rollback\<close>) is outside this file; every caller modelled here only logs a failure.
  The model records the rule set of each call.\<close>

definition rules_of :: "store \<Rightarrow> rule list" where
  "rules_of s = map (\<lambda>(a, m). (proto m, dst m, rdr m)) (mappings s)"

definition rebuild_rules :: "store \<Rightarrow> store" where
  "rebuild_rules s = s\<lparr>rebuilds := rules_of s # rebuilds s\<rparr>"

subsection \<open>\<^verbatim>\<open>expire_mapping\<close>\<close>

text \<open>The callback of a mapping's timer: unlink the mapping, free it, rebuild the rules.
  On a mapping that is no longer in the list \<^verbatim>\<open>LIST_REMOVE\<close> works on freed memory.\<close>

definition expire_mapping :: "addr \<Rightarrow> store \<Rightarrow> fault + store" where
  "expire_mapping a s =
     (if a \<in> set (map fst (mappings s)) then Inr (rebuild_rules (LIST_REMOVE a s))
      else Inl Dangling)"

text \<open>The event loop fires a pending timer: the event leaves the queue, then its
  callback runs.\<close>

definition timer_fire :: "addr \<Rightarrow> store \<Rightarrow> fault + store" where
  "timer_fire a s =
     (if evtimer_pending a s then expire_mapping a (evtimer_del a s) else Inl NotPending)"

subsection \<open>\<^verbatim>\<open>natpmp_remove_mapping\<close>\<close>

text \<open>The test of the loop: same protocol, same internal address, and either the
  wildcard port 0 or the same internal port.\<close>

definition remove_match :: "u8 \<Rightarrow> sockaddr_in \<Rightarrow> mapping \<Rightarrow> bool" where
  "remove_match pr r m =
     (proto m = ucast pr \<and> sin_addr (rdr m) = sin_addr r
      \<and> (sin_port r = 0 \<or> sin_port (rdr m) = sin_port r))"

text \<open>The loop over the list,
  \<^verbatim>\<open>for (m = LIST_FIRST(&mappings); m; m = LIST_NEXT(m, entry))\<close>. On a mapping that
  matches, the body deletes the timer, unlinks the mapping, frees it and counts it; the
  step of the loop then reads \<^verbatim>\<open>m->entry\<close> of the mapping just freed. That read of
  freed memory is undefined behaviour: the model faults there, as it does on the other
  memory errors. (The loop over \<^verbatim>\<open>listen_addrs\<close> in \<^verbatim>\<open>main\<close> saves the successor before
  it frees.) A mapping that does not match is kept and the loop goes on. The result is
  the list that remains, the timer queue and the count.\<close>

fun remove_loop ::
  "u8 \<Rightarrow> sockaddr_in \<Rightarrow> (addr \<times> mapping) list \<Rightarrow> (addr \<rightharpoonup> timeval) \<Rightarrow> int
     \<Rightarrow> fault + ((addr \<times> mapping) list \<times> (addr \<rightharpoonup> timeval) \<times> int)" where
  "remove_loop pr r [] tm count = Inr ([], tm, count)"
| "remove_loop pr r ((a, m) # ms) tm count =
     (if remove_match pr r m then Inl UseAfterFree
      else (case remove_loop pr r ms tm count of
              Inl f \<Rightarrow> Inl f
            | Inr (ms', tm', count') \<Rightarrow> Inr ((a, m) # ms', tm', count')))"

definition natpmp_remove_mapping ::
  "u8 \<Rightarrow> sockaddr_in \<Rightarrow> store \<Rightarrow> fault + (int \<times> store)" where
  "natpmp_remove_mapping pr r s =
     (case remove_loop pr r (mappings s) (timers s) 0 of
        Inl f \<Rightarrow> Inl f
      | Inr (ms', tm', count) \<Rightarrow> Inr (count, s\<lparr>mappings := ms', timers := tm'\<rparr>))"

subsection \<open>\<^verbatim>\<open>natpmp_create_mapping\<close>\<close>

text \<open>The search loop. It returns the mapping it stopped at (\<^verbatim>\<open>m\<close>, none when the list
  was exhausted) and the last mapping seen before that with another protocol and the
  same internal sockaddr (\<^verbatim>\<open>r\<close>).\<close>

fun create_scan ::
  "u8 \<Rightarrow> sockaddr_in \<Rightarrow> (addr \<times> mapping) list \<Rightarrow> (addr \<times> mapping) option
     \<Rightarrow> (addr \<times> mapping) option \<times> (addr \<times> mapping) option" where
  "create_scan pr r0 [] r = (None, r)"
| "create_scan pr r0 (x # xs) r =
     (let r' = (if proto (snd x) \<noteq> ucast pr \<and> rdr (snd x) = r0 then Some x else r)
      in if proto (snd x) = ucast pr \<and> rdr (snd x) = r0 then (Some x, r')
         else create_scan pr r0 xs r')"

text \<open>The function returns 0 (refreshed) or 1 (created) and writes the external port
  into \<^verbatim>\<open>dst\<close>; the model returns the count, the \<^verbatim>\<open>dst\<close> after the call and the store.
  \<^verbatim>\<open>new\<close> is what \<^verbatim>\<open>calloc\<close> returns (\<open>None\<close> for \<^verbatim>\<open>NULL\<close>), \<^verbatim>\<open>draw\<close> the random draw.\<close>

definition natpmp_create_mapping ::
  "u8 \<Rightarrow> sockaddr_in \<Rightarrow> sockaddr_in \<Rightarrow> u32 \<Rightarrow> addr option \<Rightarrow> u32 \<Rightarrow> store
     \<Rightarrow> fault + (int \<times> sockaddr_in \<times> store)" where
  "natpmp_create_mapping pr r0 d0 lifetime new draw s =
     (let tv = \<lparr>tv_sec = uint lifetime, tv_usec = 0\<rparr> in
      case create_scan pr r0 (mappings s) None of
        (Some (a, m), r) \<Rightarrow>
          (let d1 = (if dst m \<noteq> d0 then d0\<lparr>sin_port := sin_port (dst m)\<rparr> else d0);
               s1 = (if evtimer_pending a s then evtimer_del a s else s)
           in Inr (0, d1, evtimer_add a tv s1))
      | (None, r) \<Rightarrow>
          (case new of
             None \<Rightarrow> Inl Fatal
           | Some a \<Rightarrow>
               (let d1 = (case r of
                            Some (b, rm) \<Rightarrow> d0\<lparr>sin_port := sin_port (dst rm)\<rparr>
                          | None \<Rightarrow>
                              d0\<lparr>sin_port := htons (ucast (IPPORT_HIFIRSTAUTO +
                                   arc4random_uniform (IPPORT_HILASTAUTO - IPPORT_HIFIRSTAUTO) draw))\<rparr>);
                    m = \<lparr>proto = ucast pr, dst = d1, rdr = r0\<rparr>
                in Inr (1, d1, evtimer_add a tv (LIST_INSERT_HEAD a m s)))))"

subsection \<open>Constants of \<^verbatim>\<open>natpmpd.h\<close>\<close>

text \<open>Modelled from the spec: the header \<^verbatim>\<open>natpmpd.h\<close> is not part of the sources at
  hand. Section 6 of the specification gives the result codes as those of the NAT-PMP
  protocol, section 4.1 gives version 0 for NAT-PMP, section 8 gives opcode 1 for
  "map UDP" and version 0 in a response, section 4.5 gives ten announcements (as does
  the comment in \<^verbatim>\<open>announce_address\<close>, and the table \<^verbatim>\<open>timeouts\<close> has ten entries). The
  source stores a result code into the response as the macro gives it; the constants
  here are the numbers the stored bytes carry on the wire.\<close>

definition NATPMPD_MAX_VERSION :: u8 where "NATPMPD_MAX_VERSION = 0"
definition NATPMP_MAX_VERSION :: u8 where "NATPMP_MAX_VERSION = 0"
definition NATPMPD_MAX_DELAY :: nat where "NATPMPD_MAX_DELAY = 10"
definition NATPMP_OPCODE_ANNOUNCE :: u8 where "NATPMP_OPCODE_ANNOUNCE = 0"
definition NATPMP_OPCODE_MAP_UDP :: u8 where "NATPMP_OPCODE_MAP_UDP = 1"
definition NATPMP_OPCODE_MAP_TCP :: u8 where "NATPMP_OPCODE_MAP_TCP = 2"
definition NATPMP_SUCCESS :: u16 where "NATPMP_SUCCESS = 0"
definition NATPMP_UNSUPP_VERSION :: u16 where "NATPMP_UNSUPP_VERSION = 1"
definition NATPMP_NETWORK_FAILURE :: u16 where "NATPMP_NETWORK_FAILURE = 3"
definition NATPMP_UNSUPP_OPCODE :: u16 where "NATPMP_UNSUPP_OPCODE = 5"

text \<open>Modelled from the spec: \<^verbatim>\<open>IN6ADDR_V4MAPPED_INIT\<close> and \<^verbatim>\<open>IN6_IS_ADDR_V4MAPPED_ANY\<close>
  are macros of the missing header. The external address is kept as an IPv4-mapped IPv6
  address; "unspecified" is the mapped address of 0.0.0.0.\<close>

definition IN6ADDR_V4MAPPED_INIT :: "128 word" where
  "IN6ADDR_V4MAPPED_INIT = 0xFFFF00000000"

definition IN6_IS_ADDR_V4MAPPED_ANY :: "128 word \<Rightarrow> bool" where
  "IN6_IS_ADDR_V4MAPPED_ANY a = (a = IN6ADDR_V4MAPPED_INIT)"

subsection \<open>The daemon's environment\<close>

record listen_addr =
  ss_family :: u8
  fd :: int

text \<open>\<^verbatim>\<open>struct natpmpd\<close>, as far as this file uses it. \<^verbatim>\<open>sc_announce_ev\<close> is the
  timeout the announcement timer is pending with, if it is pending. \<^verbatim>\<open>sc_delay\<close> counts
  up from 0.\<close>

record natpmpd =
  sc_address :: "128 word"
  sc_starttime :: timeval
  sc_delay :: nat
  sc_announce_ev :: "timeval option"
  sc_interface :: string
  listen_addrs :: "listen_addr list"

text \<open>The last four bytes of the address, \<^verbatim>\<open>s6_addr[12]\<close> to \<^verbatim>\<open>s6_addr[15]\<close>.\<close>

definition s6_addr12 :: "128 word \<Rightarrow> u32" where
  "s6_addr12 a = ucast a"

text \<open>\<^verbatim>\<open>sssoe\<close>; \<^verbatim>\<open>now\<close> is the second that \<^verbatim>\<open>gettimeofday\<close> returns.\<close>

definition sssoe :: "natpmpd \<Rightarrow> int \<Rightarrow> u32" where
  "sssoe env now = word_of_int (now - tv_sec (sc_starttime env))"

subsection \<open>Bytes of a packet\<close>

definition be16 :: "u16 \<Rightarrow> u8 list" where
  "be16 x = [ucast (drop_bit 8 x), ucast x]"

definition be32 :: "u32 \<Rightarrow> u8 list" where
  "be32 x = [ucast (drop_bit 24 x), ucast (drop_bit 16 x), ucast (drop_bit 8 x), ucast x]"

definition load16 :: "u8 list \<Rightarrow> nat \<Rightarrow> u16" where
  "load16 bs i = push_bit 8 (ucast (bs ! i)) OR ucast (bs ! (i + 1))"

definition load32 :: "u8 list \<Rightarrow> nat \<Rightarrow> u32" where
  "load32 bs i =
     push_bit 24 (ucast (bs ! i)) OR push_bit 16 (ucast (bs ! (i + 1)))
       OR push_bit 8 (ucast (bs ! (i + 2))) OR ucast (bs ! (i + 3))"

text \<open>Writing bytes into a buffer at an offset; every use below stays inside the
  buffer, which the callers check.\<close>

definition store_bytes :: "nat \<Rightarrow> u8 list \<Rightarrow> u8 list \<Rightarrow> u8 list" where
  "store_bytes off bs buf = take off buf @ bs @ drop (off + length bs) buf"

subsection \<open>\<^verbatim>\<open>natpmp_mapping\<close>\<close>

text \<open>The three fields of \<^verbatim>\<open>response->data.mapping\<close> are at offsets 8, 10 and 12 of the
  response.\<close>

definition set_mapping_data :: "u16 \<Rightarrow> u16 \<Rightarrow> u32 \<Rightarrow> u8 list \<Rightarrow> u8 list" where
  "set_mapping_data port0 port1 lifetime response =
     store_bytes 12 (be32 lifetime) (store_bytes 10 (be16 port1) (store_bytes 8 (be16 port0) response))"

definition rebuild_if :: "int \<Rightarrow> store \<Rightarrow> store" where
  "rebuild_if count s = (if count \<noteq> 0 then rebuild_rules s else s)"

definition natpmp_mapping ::
  "u8 list \<Rightarrow> u8 \<Rightarrow> sockaddr_in \<Rightarrow> sockaddr_in \<Rightarrow> u32 \<Rightarrow> addr option \<Rightarrow> u32 \<Rightarrow> store
     \<Rightarrow> fault + (nat \<times> u8 list \<times> store)" where
  "natpmp_mapping response pr r0 d0 lifetime new draw s =
     (if sin_port r0 > 0 then
        (if lifetime > 0 then
           (case natpmp_create_mapping pr r0 d0 (ntohl lifetime) new draw s of
              Inl f \<Rightarrow> Inl f
            | Inr (count, d1, s1) \<Rightarrow>
                Inr (16, set_mapping_data (sin_port r0) (sin_port d1) lifetime response,
                     rebuild_if count s1))
         else
           (case natpmp_remove_mapping pr r0 s of
              Inl f \<Rightarrow> Inl f
            | Inr (count, s1) \<Rightarrow>
                Inr (16, set_mapping_data (sin_port r0) 0 0 response, rebuild_if count s1)))
      else
        (case natpmp_remove_mapping pr r0 s of
           Inl f \<Rightarrow> Inl f
         | Inr (count, s1) \<Rightarrow>
             Inr (16, set_mapping_data 0 0 0 response, rebuild_if count s1)))"

subsection \<open>\<^verbatim>\<open>natpmp_handler\<close> and \<^verbatim>\<open>common_handler\<close>\<close>

text \<open>The end of the handler: the opcode of the response is the opcode of the request
  with the top bit set, and \<^verbatim>\<open>len\<close> bytes of the response go back to the client.\<close>

definition send_response :: "u8 list \<Rightarrow> nat \<Rightarrow> u8 list \<Rightarrow> u8 list" where
  "send_response request len response =
     take len (store_bytes 1 [(request ! 1) OR 0x80] response)"

text \<open>\<^verbatim>\<open>response_storage\<close> is the array on the stack, \<^verbatim>\<open>NATPMP_MAX_PACKET_SIZE\<close> bytes of
  whatever the stack held; the size is a constant of the missing header, so the array is
  a parameter. The handler lays a \<^verbatim>\<open>struct natpmp_response\<close> (16 bytes) over it; the model
  faults there if the array is shorter. \<^verbatim>\<open>request\<close> holds the \<^verbatim>\<open>len\<close> bytes received,
  \<^verbatim>\<open>sock\<close> the sender. The result is the datagram sent back, if any, and the store.\<close>

definition natpmp_handler ::
  "u8 list \<Rightarrow> natpmpd \<Rightarrow> int \<Rightarrow> u8 list \<Rightarrow> sockaddr_in \<Rightarrow> addr option \<Rightarrow> u32 \<Rightarrow> store
     \<Rightarrow> fault + (u8 list option \<times> store)" where
  "natpmp_handler response_storage env now request sock new draw s =
     (if sin_family sock \<noteq> AF_INET then Inr (None, s)
      else if length response_storage < 16 then Inl Overflow
      else
        (let response = store_bytes 4 (be32 (htonl (sssoe env now)))
                          (store_bytes 0 [NATPMPD_MAX_VERSION] response_storage)
         in if request ! 0 > NATPMP_MAX_VERSION then
              Inr (Some (take 8 (store_bytes 2 (be16 NATPMP_UNSUPP_VERSION)
                                   (store_bytes 1 [0x80] response))), s)
            else
              (let response = store_bytes 2
                     (be16 (if IN6_IS_ADDR_V4MAPPED_ANY (sc_address env)
                            then NATPMP_NETWORK_FAILURE else NATPMP_SUCCESS)) response;
                   opcode = request ! 1
               in if opcode = NATPMP_OPCODE_ANNOUNCE then
                    (if length request \<noteq> 2 then Inr (None, s)
                     else Inr (Some (send_response request 12
                                 (store_bytes 8 (be32 (s6_addr12 (sc_address env))) response)), s))
                  else if opcode = NATPMP_OPCODE_MAP_UDP \<or> opcode = NATPMP_OPCODE_MAP_TCP then
                    (let pr = (if opcode = NATPMP_OPCODE_MAP_UDP then IPPROTO_UDP else IPPROTO_TCP)
                     in if length request \<noteq> 12 then Inr (None, s)
                        else
                          (let r0 = sock\<lparr>sin_port := load16 request 4\<rparr>;
                               d0 = \<lparr>sin_len = 0, sin_family = AF_INET,
                                     sin_port = load16 request 6,
                                     sin_addr = s6_addr12 (sc_address env), sin_zero = 0\<rparr>
                           in case natpmp_mapping response pr r0 d0 (load32 request 8) new draw s of
                                Inl f \<Rightarrow> Inl f
                              | Inr (len, response', s') \<Rightarrow>
                                  Inr (Some (send_response request len response'), s')))
                  else
                    (if length request > length response then Inl Overflow
                     else Inr (Some (send_response request (length request)
                                 (store_bytes 2 (be16 NATPMP_UNSUPP_OPCODE)
                                    (store_bytes 0 request response))), s)))))"

text \<open>\<^verbatim>\<open>common_handler\<close>: \<^verbatim>\<open>request\<close> is what \<^verbatim>\<open>recvfrom\<close> delivered (empty when it
  failed). \<^verbatim>\<open>pcp_handler\<close> has an empty body.\<close>

definition common_handler ::
  "u8 list \<Rightarrow> natpmpd \<Rightarrow> int \<Rightarrow> u8 list \<Rightarrow> sockaddr_in \<Rightarrow> addr option \<Rightarrow> u32 \<Rightarrow> store
     \<Rightarrow> fault + (u8 list option \<times> store)" where
  "common_handler response_storage env now request sock new draw s =
     (if length request < 1 then Inr (None, s)
      else if length request < 2 then Inr (None, s)
      else if (request ! 1) AND 0x80 \<noteq> 0 then Inr (None, s)
      else if request ! 0 = 0 then
        natpmp_handler response_storage env now request sock new draw s
      else Inr (None, s))"

subsection \<open>The announcement timer\<close>

definition timeouts :: "timeval list" where
  "timeouts =
     [\<lparr>tv_sec = 0, tv_usec = 0\<rparr>, \<lparr>tv_sec = 0, tv_usec = 250000\<rparr>,
      \<lparr>tv_sec = 0, tv_usec = 500000\<rparr>, \<lparr>tv_sec = 1, tv_usec = 0\<rparr>,
      \<lparr>tv_sec = 2, tv_usec = 0\<rparr>, \<lparr>tv_sec = 4, tv_usec = 0\<rparr>,
      \<lparr>tv_sec = 8, tv_usec = 0\<rparr>, \<lparr>tv_sec = 16, tv_usec = 0\<rparr>,
      \<lparr>tv_sec = 32, tv_usec = 0\<rparr>, \<lparr>tv_sec = 64, tv_usec = 0\<rparr>]"

text \<open>\<^verbatim>\<open>announce_address\<close>, the callback of the announcement timer. It returns the
  datagrams handed to \<^verbatim>\<open>sendto\<close>, each with its socket, and the environment. The packet
  is the start of a zeroed \<^verbatim>\<open>struct natpmp_response\<close>.\<close>

definition announce_packet :: "natpmpd \<Rightarrow> int \<Rightarrow> u8 list" where
  "announce_packet env now =
     [NATPMPD_MAX_VERSION, 0x80] @ be16 NATPMP_SUCCESS @ be32 (htonl (sssoe env now))
       @ be32 (s6_addr12 (sc_address env)) @ [0, 0, 0, 0]"

text \<open>The loop over the listening addresses: one \<^verbatim>\<open>sendto\<close> of the twelve bytes on
  each IPv4 socket.\<close>

definition announce_sends :: "natpmpd \<Rightarrow> int \<Rightarrow> (int \<times> u8 list) list" where
  "announce_sends env now =
     map (\<lambda>la. (fd la, take 12 (announce_packet env now)))
       (filter (\<lambda>la. ss_family la = AF_INET) (listen_addrs env))"

definition announce_address :: "natpmpd \<Rightarrow> int \<Rightarrow> (int \<times> u8 list) list \<times> natpmpd" where
  "announce_address env now =
     (let sent = announce_sends env now;
          env1 = env\<lparr>sc_delay := sc_delay env + 1\<rparr>
      in (sent, if sc_delay env1 < NATPMPD_MAX_DELAY
                then env1\<lparr>sc_announce_ev := Some (timeouts ! sc_delay env1)\<rparr>
                else env1))"

text \<open>\<^verbatim>\<open>check_interface\<close>. \<^verbatim>\<open>ifaddrs\<close> is the list \<^verbatim>\<open>getifaddrs\<close> returns (\<open>None\<close> when it
  fails): the name, the address family and the IPv4 address of each entry.\<close>

record ifaddr =
  ifa_name :: string
  ifa_family :: u8
  ifa_addr :: u32

definition check_interface :: "ifaddr list option \<Rightarrow> natpmpd \<Rightarrow> fault + natpmpd" where
  "check_interface ifaddrs env =
     (case ifaddrs of
        None \<Rightarrow> Inl Fatal
      | Some ifs \<Rightarrow>
          (let a = (case find (\<lambda>i. ifa_name i = sc_interface env \<and> ifa_family i = AF_INET) ifs of
                      Some i \<Rightarrow> IN6ADDR_V4MAPPED_INIT OR ucast (ifa_addr i)
                    | None \<Rightarrow> IN6ADDR_V4MAPPED_INIT)
           in if sc_address env = a then Inr env
              else
                (let env1 = env\<lparr>sc_address := a, sc_announce_ev := None\<rparr>
                 in if a = IN6ADDR_V4MAPPED_INIT then Inr env1
                    else Inr (env1\<lparr>sc_delay := 0, sc_announce_ev := Some (timeouts ! 0)\<rparr>))))"

text \<open>The event loop on the announcement timer: while the timer is pending it fires,
  leaves the queue, and the callback runs. \<^verbatim>\<open>clock\<close> holds the time of each firing;
  the run ends when no timer is pending or the clock readings are used up. The result
  lists, for each firing, the timeout the timer was armed with and what was sent.\<close>

fun announce_run ::
  "int list \<Rightarrow> natpmpd \<Rightarrow> (timeval \<times> (int \<times> u8 list) list) list \<times> natpmpd" where
  "announce_run [] env = ([], env)"
| "announce_run (now # clock) env =
     (case sc_announce_ev env of
        None \<Rightarrow> ([], env)
      | Some tv \<Rightarrow>
          (case announce_address (env\<lparr>sc_announce_ev := None\<rparr>) now of
             (sent, env1) \<Rightarrow>
               (case announce_run clock env1 of
                  (fired, env2) \<Rightarrow> ((tv, sent) # fired, env2))))"

subsection \<open>Sequences of operations on the store\<close>




subsection \<open>Predicates on the store\<close>

text \<open>At most one mapping per protocol and internal sockaddr, the key the search loop of
  \<^verbatim>\<open>natpmp_create_mapping\<close> compares.\<close>

definition one_per_key :: "store \<Rightarrow> bool" where
  "one_per_key s = distinct (map (\<lambda>(a, m). (proto m, rdr m)) (mappings s))"





text \<open>The mappings a search of \<^verbatim>\<open>natpmp_create_mapping\<close> treats as the same mapping and
  as a related one.\<close>

definition exact_match :: "u8 \<Rightarrow> sockaddr_in \<Rightarrow> addr \<times> mapping \<Rightarrow> bool" where
  "exact_match pr r0 x = (proto (snd x) = ucast pr \<and> rdr (snd x) = r0)"

definition related_match :: "u8 \<Rightarrow> sockaddr_in \<Rightarrow> addr \<times> mapping \<Rightarrow> bool" where
  "related_match pr r0 x = (proto (snd x) \<noteq> ucast pr \<and> rdr (snd x) = r0)"

text \<open>Every pending expiry timer belongs to a mapping that is in the list.\<close>

definition timers_linked :: "store \<Rightarrow> bool" where
  "timers_linked s = (dom (timers s) \<subseteq> fst ` set (mappings s))"


text \<open>The two protocols the handler passes on.\<close>

definition udp_or_tcp :: "u32 \<Rightarrow> bool" where
  "udp_or_tcp p = (p = ucast IPPROTO_UDP \<or> p = ucast IPPROTO_TCP)"

text \<open>The mapping response as section 6 of the specification lays it out: version,
  opcode with the top bit set, result, seconds since start, internal port, external
  port, lifetime. The handler's datagram is compared with it.\<close>

definition spec_mapping_response :: "u8 \<Rightarrow> u16 \<Rightarrow> u32 \<Rightarrow> u16 \<Rightarrow> u16 \<Rightarrow> u32 \<Rightarrow> u8 list" where
  "spec_mapping_response opcode result ss port0 port1 lifetime =
     [NATPMPD_MAX_VERSION, opcode OR 0x80] @ be16 result @ be32 ss @ be16 port0 @ be16 port1
       @ be32 lifetime"

text \<open>A mapping request that \<^verbatim>\<open>natpmp_handler\<close> takes up: an IPv4 sender, twelve bytes,
  version 0, opcode "map UDP" or "map TCP"; and the pieces the handler reads from it: the
  protocol, the internal sockaddr (the sender's, with the requested internal port), the
  external sockaddr (the external address with the requested external port), the
  lifetime, and the result code the handler picks before it looks at the opcode.\<close>

definition map_request :: "u8 list \<Rightarrow> u8 list \<Rightarrow> sockaddr_in \<Rightarrow> bool" where
  "map_request response_storage request sock =
     (sin_family sock = AF_INET \<and> 16 \<le> length response_storage \<and> length request = 12
      \<and> request ! 0 = 0
      \<and> (request ! 1 = NATPMP_OPCODE_MAP_UDP \<or> request ! 1 = NATPMP_OPCODE_MAP_TCP))"

definition request_proto :: "u8 list \<Rightarrow> u8" where
  "request_proto request =
     (if request ! 1 = NATPMP_OPCODE_MAP_UDP then IPPROTO_UDP else IPPROTO_TCP)"

definition request_rdr :: "sockaddr_in \<Rightarrow> u8 list \<Rightarrow> sockaddr_in" where
  "request_rdr sock request = sock\<lparr>sin_port := load16 request 4\<rparr>"

definition request_dst :: "natpmpd \<Rightarrow> u8 list \<Rightarrow> sockaddr_in" where
  "request_dst env request =
     \<lparr>sin_len = 0, sin_family = AF_INET, sin_port = load16 request 6,
      sin_addr = s6_addr12 (sc_address env), sin_zero = 0\<rparr>"

definition result_code :: "natpmpd \<Rightarrow> u16" where
  "result_code env =
     (if IN6_IS_ADDR_V4MAPPED_ANY (sc_address env) then NATPMP_NETWORK_FAILURE
      else NATPMP_SUCCESS)"

text \<open>A request that reaches the \<^verbatim>\<open>default\<close> branch of \<^verbatim>\<open>natpmp_handler\<close> and fits
  the response array: an IPv4 sender, version 0, an opcode below 128 that is none of the
  three known ones.\<close>

definition unsupported_request :: "u8 list \<Rightarrow> u8 list \<Rightarrow> sockaddr_in \<Rightarrow> bool" where
  "unsupported_request response_storage request sock =
     (sin_family sock = AF_INET \<and> 16 \<le> length response_storage \<and> 2 \<le> length request
      \<and> length request \<le> length response_storage
      \<and> request ! 0 = 0 \<and> (request ! 1) AND 0x80 = 0
      \<and> request ! 1 \<noteq> NATPMP_OPCODE_ANNOUNCE \<and> request ! 1 \<noteq> NATPMP_OPCODE_MAP_UDP
      \<and> request ! 1 \<noteq> NATPMP_OPCODE_MAP_TCP)"

text \<open>The sockets \<^verbatim>\<open>announce_address\<close> sends on.\<close>

definition ipv4_sockets :: "natpmpd \<Rightarrow> int list" where
  "ipv4_sockets env = map fd (filter (\<lambda>la. ss_family la = AF_INET) (listen_addrs env))"

subsection \<open>Example data\<close>

text \<open>The sockaddr \<^verbatim>\<open>recvfrom\<close> gives for an IPv4 sender, the sockaddr \<^verbatim>\<open>natpmp_handler\<close>
  builds for the external side, and the scenario of section 8 of the specification: the
  client 10.0.0.5 with internal port 45000 behind the external address 198.51.100.1.\<close>

definition inet_sockaddr :: "u32 \<Rightarrow> u16 \<Rightarrow> sockaddr_in" where
  "inet_sockaddr a p =
     \<lparr>sin_len = 16, sin_family = AF_INET, sin_port = p, sin_addr = a, sin_zero = 0\<rparr>"

definition external_sockaddr :: "u32 \<Rightarrow> u16 \<Rightarrow> sockaddr_in" where
  "external_sockaddr a p =
     \<lparr>sin_len = 0, sin_family = AF_INET, sin_port = p, sin_addr = a, sin_zero = 0\<rparr>"

definition ex_client :: sockaddr_in where
  "ex_client = inet_sockaddr 0x0A000005 45000"

definition ex_udp :: mapping where
  "ex_udp = \<lparr>proto = 17, dst = external_sockaddr 0xC6336401 50000, rdr = ex_client\<rparr>"

definition ex_store :: store where
  "ex_store = \<lparr>mappings = [(1, ex_udp)],
               timers = [1 \<mapsto> \<lparr>tv_sec = 3600, tv_usec = 0\<rparr>], rebuilds = []\<rparr>"

definition ex_env :: natpmpd where
  "ex_env =
     \<lparr>sc_address = 0xFFFFC6336401, sc_starttime = \<lparr>tv_sec = 1000, tv_usec = 0\<rparr>,
      sc_delay = 0, sc_announce_ev = None, sc_interface = ''em0'',
      listen_addrs = [\<lparr>ss_family = AF_INET, fd = 3\<rparr>, \<lparr>ss_family = 24, fd = 4\<rparr>,
                      \<lparr>ss_family = AF_INET, fd = 5\<rparr>]\<rparr>"

text \<open>Requests of the client 10.0.0.5, sent from its port 5350: map UDP 45000 and map
  TCP 45000 for 3600 seconds, delete the UDP mapping of port 45000, delete the TCP
  mapping of port 45000, delete all its UDP mappings; an environment whose external
  address is still unspecified; the array the response is built in.\<close>

definition ex_sock :: sockaddr_in where
  "ex_sock = inet_sockaddr 0x0A000005 5350"

definition ex_map_udp :: "u8 list" where
  "ex_map_udp = [0, 1, 0, 0, 0xAF, 0xC8, 0, 0, 0, 0, 0x0E, 0x10]"

definition ex_map_tcp :: "u8 list" where
  "ex_map_tcp = [0, 2, 0, 0, 0xAF, 0xC8, 0, 0, 0, 0, 0x0E, 0x10]"

definition ex_delete_one :: "u8 list" where
  "ex_delete_one = [0, 1, 0, 0, 0xAF, 0xC8, 0, 0, 0, 0, 0, 0]"

definition ex_delete_tcp :: "u8 list" where
  "ex_delete_tcp = [0, 2, 0, 0, 0xAF, 0xC8, 0, 0, 0, 0, 0, 0]"

definition ex_delete_all :: "u8 list" where
  "ex_delete_all = [0, 1, 0, 0, 0, 0, 0xAB, 0xCD, 0, 0, 0x0E, 0x10]"

definition ex_env_down :: natpmpd where
  "ex_env_down = ex_env\<lparr>sc_address := IN6ADDR_V4MAPPED_INIT\<rparr>"

definition ex_stack :: "u8 list" where
  "ex_stack = replicate 16 0xEE"

text \<open>The interface comes up with the address 203.0.113.7; the environment after
  \<^verbatim>\<open>check_interface\<close> has seen that; twelve clock readings.\<close>

definition ex_ifaddrs :: "ifaddr list" where
  "ex_ifaddrs =
     [\<lparr>ifa_name = ''lo0'', ifa_family = AF_INET, ifa_addr = 0x7F000001\<rparr>,
      \<lparr>ifa_name = ''em0'', ifa_family = 24, ifa_addr = 0\<rparr>,
      \<lparr>ifa_name = ''em0'', ifa_family = AF_INET, ifa_addr = 0xCB007107\<rparr>]"

definition ex_env_up :: natpmpd where
  "ex_env_up =
     ex_env\<lparr>sc_address := 0xFFFFCB007107, sc_delay := 0,
            sc_announce_ev := Some \<lparr>tv_sec = 0, tv_usec = 0\<rparr>\<rparr>"

definition ex_clock :: "int list" where
  "ex_clock = [1060, 1060, 1061, 1062, 1064, 1068, 1076, 1092, 1124, 1188, 1200, 1300]"

definition ex_unsupported :: "u8 list" where
  "ex_unsupported = [0, 3, 0xAA, 0xBB, 1, 2]"



section \<open>Properties\<close>

subsection \<open>The loops\<close>

text \<open>The loop of \<^verbatim>\<open>natpmp_remove_mapping\<close> runs to its end only over mappings that do
  not match; the first mapping that matches is freed and then read.\<close>

lemma remove_loop_eq:
  "remove_loop pr r ms tm c =
     (if \<exists>x \<in> set ms. remove_match pr r (snd x) then Inl UseAfterFree else Inr (ms, tm, c))"
proof (induction ms)
  case Nil
  show ?case by simp
next
  case (Cons x ms)
  obtain a m where x: "x = (a, m)" by (cases x)
  show ?case
  proof (cases "remove_match pr r m")
    case True
    with x show ?thesis by simp
  next
    case False
    with x Cons.IH show ?thesis by simp
  qed
qed

lemma natpmp_remove_mapping_eq:
  "natpmp_remove_mapping pr r s =
     (if \<exists>x \<in> set (mappings s). remove_match pr r (snd x) then Inl UseAfterFree
      else Inr (0, s))"
  by (simp add: natpmp_remove_mapping_def remove_loop_eq)

lemma natpmp_remove_mapping_Inr:
  "natpmp_remove_mapping pr r s = Inr (count, s1) \<Longrightarrow> count = 0 \<and> s1 = s"
  by (simp add: natpmp_remove_mapping_eq split: if_splits)

lemma distinct_map_eq:
  "distinct (map f xs) \<Longrightarrow> x \<in> set xs \<Longrightarrow> y \<in> set xs \<Longrightarrow> f x = f y \<Longrightarrow> x = y"
  by (auto simp: distinct_map dest: inj_onD)

text \<open>The search loop of \<^verbatim>\<open>natpmp_create_mapping\<close> stops at the first mapping with the
  same protocol and internal sockaddr; when there is none, it has remembered the last
  mapping with another protocol and the same internal sockaddr.\<close>

lemma create_scan_fst:
  "fst (create_scan pr r0 ms r) = find (exact_match pr r0) ms"
  by (induction ms arbitrary: r) (simp_all add: exact_match_def Let_def)

lemma create_scan_snd:
  "find (exact_match pr r0) ms = None \<Longrightarrow>
   snd (create_scan pr r0 ms r) =
     (if filter (related_match pr r0) ms = [] then r
      else Some (last (filter (related_match pr r0) ms)))"
proof (induction ms arbitrary: r)
  case Nil
  show ?case by simp
next
  case (Cons x ms)
  from Cons.prems have nx: "\<not> exact_match pr r0 x" and rest: "find (exact_match pr r0) ms = None"
    by (simp_all split: if_splits)
  show ?case
  proof (cases "related_match pr r0 x")
    case True
    with nx have "snd (create_scan pr r0 (x # ms) r) = snd (create_scan pr r0 ms (Some x))"
      by (simp add: exact_match_def related_match_def)
    with True Cons.IH [OF rest, of "Some x"] show ?thesis by simp
  next
    case False
    with nx have "snd (create_scan pr r0 (x # ms) r) = snd (create_scan pr r0 ms r)"
      by (auto simp add: exact_match_def related_match_def)
    with False Cons.IH [OF rest, of r] show ?thesis by simp
  qed
qed

lemma find_exact_Some:
  assumes "x \<in> set ms" and "exact_match pr r0 x"
  shows "\<exists>a m. find (exact_match pr r0) ms = Some (a, m) \<and> (a, m) \<in> set ms \<and> exact_match pr r0 (a, m)"
proof (cases "find (exact_match pr r0) ms")
  case None
  then have "\<forall>y \<in> set ms. \<not> exact_match pr r0 y"
    by (auto simp: find_None_iff)
  with assms show ?thesis by blast
next
  case (Some y)
  then have "y \<in> set ms" "exact_match pr r0 y"
    by (auto simp: find_Some_iff)
  with Some show ?thesis by (cases y) auto
qed

text \<open>The three ways \<^verbatim>\<open>natpmp_create_mapping\<close> ends: a refresh, a new mapping, and
  \<^verbatim>\<open>fatal\<close> when \<^verbatim>\<open>calloc\<close> fails.\<close>

lemma create_refresh:
  assumes "find (exact_match pr r0) (mappings s) = Some (a, m)"
  shows "natpmp_create_mapping pr r0 d0 lifetime new draw s =
           Inr (0, d0\<lparr>sin_port := sin_port (dst m)\<rparr>,
                s\<lparr>timers := (timers s)(a \<mapsto> \<lparr>tv_sec = uint lifetime, tv_usec = 0\<rparr>)\<rparr>)"
proof -
  obtain r where sc: "create_scan pr r0 (mappings s) None = (Some (a, m), r)"
    using create_scan_fst [of pr r0 "mappings s" None] assms
    by (cases "create_scan pr r0 (mappings s) None") simp
  have d: "(if dst m \<noteq> d0 then d0\<lparr>sin_port := sin_port (dst m)\<rparr> else d0) = d0\<lparr>sin_port := sin_port (dst m)\<rparr>"
    by auto
  show ?thesis
    unfolding natpmp_create_mapping_def Let_def sc
    by (simp add: d evtimer_add_def evtimer_del_def evtimer_pending_def)
qed

lemma create_insert:
  assumes "find (exact_match pr r0) (mappings s) = None"
  shows "natpmp_create_mapping pr r0 d0 lifetime (Some a) draw s =
           (let port = (if filter (related_match pr r0) (mappings s) = []
                        then ucast (49152 + draw mod 16383)
                        else sin_port (dst (snd (last (filter (related_match pr r0) (mappings s))))));
                d1 = d0\<lparr>sin_port := port\<rparr>
            in Inr (1, d1,
                s\<lparr>mappings := (a, \<lparr>proto = ucast pr, dst = d1, rdr = r0\<rparr>) # mappings s,
                  timers := (timers s)(a \<mapsto> \<lparr>tv_sec = uint lifetime, tv_usec = 0\<rparr>)\<rparr>))"
proof -
  let ?rel = "filter (related_match pr r0) (mappings s)"
  have sc: "create_scan pr r0 (mappings s) None = (None, if ?rel = [] then None else Some (last ?rel))"
    using create_scan_fst [of pr r0 "mappings s" None] create_scan_snd [OF assms, of None] assms
    by (cases "create_scan pr r0 (mappings s) None") simp
  show ?thesis
    unfolding natpmp_create_mapping_def Let_def sc
    by (simp add: evtimer_add_def LIST_INSERT_HEAD_def htons_def arc4random_uniform_def
        IPPORT_HIFIRSTAUTO_def IPPORT_HILASTAUTO_def split: prod.splits)
qed

lemma create_fatal:
  assumes "find (exact_match pr r0) (mappings s) = None"
  shows "natpmp_create_mapping pr r0 d0 lifetime None draw s = Inl Fatal"
proof -
  have "fst (create_scan pr r0 (mappings s) None) = None"
    using create_scan_fst [of pr r0 "mappings s" None] assms by simp
  then show ?thesis
    unfolding natpmp_create_mapping_def Let_def
    by (cases "create_scan pr r0 (mappings s) None") simp
qed

lemma create_result_shape:
  assumes "natpmp_create_mapping pr r0 d0 lifetime new draw s = Inr (count, d1, s1)"
  shows "(\<exists>p. d1 = d0\<lparr>sin_port := p\<rparr>)
       \<and> (count \<noteq> 0 \<longrightarrow> (\<exists>a. mappings s1 = (a, \<lparr>proto = ucast pr, dst = d1, rdr = r0\<rparr>) # mappings s))
       \<and> (count = 0 \<longrightarrow> mappings s1 = mappings s)"
proof (cases "find (exact_match pr r0) (mappings s)")
  case (Some y)
  obtain a m where "y = (a, m)" by (cases y)
  with Some assms show ?thesis
    by (auto simp: create_refresh)
next
  case None
  from assms None obtain a where new: "new = Some a"
    by (cases new) (simp_all add: create_fatal)
  from assms show ?thesis
    unfolding new create_insert [OF None] Let_def
    by auto
qed

text \<open>The calls on the example store that the examples below share.\<close>

lemma ex_refresh:
  "natpmp_create_mapping IPPROTO_UDP ex_client d0 lifetime new draw ex_store =
     Inr (0, d0\<lparr>sin_port := 50000\<rparr>,
          ex_store\<lparr>timers := (timers ex_store)(1 \<mapsto> \<lparr>tv_sec = uint lifetime, tv_usec = 0\<rparr>)\<rparr>)"
proof -
  have "find (exact_match IPPROTO_UDP ex_client) (mappings ex_store) = Some (1, ex_udp)"
    by (simp add: ex_store_def exact_match_def ex_udp_def IPPROTO_UDP_def)
  from create_refresh [OF this] show ?thesis
    by (simp add: ex_udp_def external_sockaddr_def)
qed

lemma ex_related:
  "natpmp_create_mapping IPPROTO_TCP ex_client d0 lifetime (Some a) draw ex_store =
     Inr (1, d0\<lparr>sin_port := 50000\<rparr>,
          ex_store\<lparr>mappings := (a, \<lparr>proto = 6, dst = d0\<lparr>sin_port := 50000\<rparr>, rdr = ex_client\<rparr>)
                                   # mappings ex_store,
                   timers := (timers ex_store)(a \<mapsto> \<lparr>tv_sec = uint lifetime, tv_usec = 0\<rparr>)\<rparr>)"
proof -
  have f: "find (exact_match IPPROTO_TCP ex_client) (mappings ex_store) = None"
    by (simp add: ex_store_def exact_match_def ex_udp_def IPPROTO_TCP_def)
  have r: "filter (related_match IPPROTO_TCP ex_client) (mappings ex_store) = [(1, ex_udp)]"
    by (simp add: ex_store_def related_match_def ex_udp_def IPPROTO_TCP_def)
  show ?thesis
    by (simp add: create_insert [OF f] r Let_def)
      (simp add: ex_udp_def external_sockaddr_def IPPROTO_TCP_def)
qed

lemma ex_remove_one:
  "natpmp_remove_mapping IPPROTO_UDP ex_client ex_store = Inl UseAfterFree"
  "natpmp_remove_mapping IPPROTO_TCP ex_client ex_store = Inr (0, ex_store)"
  by (simp_all add: natpmp_remove_mapping_eq ex_store_def remove_match_def ex_udp_def
      IPPROTO_UDP_def IPPROTO_TCP_def)

lemma ex_bytes:
  "be16 0 = [0, 0]" "be16 3 = [0, 3]" "be16 5 = [0, 5]" "be16 45000 = [0xAF, 0xC8]"
  "be16 50000 = [0xC3, 0x50]"
  "be32 0 = [0, 0, 0, 0]" "be32 60 = [0, 0, 0, 60]" "be32 3600 = [0, 0, 0x0E, 0x10]"
  by (simp_all add: be16_def be32_def drop_bit_eq_div)

subsection \<open>Refreshing a mapping\<close>

text \<open>
  Claim C1. When the store holds a mapping with the protocol and the internal sockaddr
  of the call, \<^verbatim>\<open>natpmp_create_mapping\<close> finds one (the first in the list, and the only
  one when the store has one mapping per key). Whatever external port the caller asked
  for, \<^verbatim>\<open>dst\<close> comes back with the external port stored in that mapping; the mapping's
  timer is pending with the new lifetime (any pending one was deleted, then the timer
  was added); the list of mappings is the one before the call, as are the rule sets;
  the function returns 0.
\<close>

theorem refresh_keeps_stored_port:
  assumes "x \<in> set (mappings s)" and "exact_match pr r0 x"
  shows "\<exists>a m. find (exact_match pr r0) (mappings s) = Some (a, m)
           \<and> (a, m) \<in> set (mappings s) \<and> proto m = ucast pr \<and> rdr m = r0
           \<and> (one_per_key s \<longrightarrow> (a, m) = x)
           \<and> natpmp_create_mapping pr r0 d0 lifetime new draw s =
                Inr (0, d0\<lparr>sin_port := sin_port (dst m)\<rparr>,
                     s\<lparr>timers := (timers s)(a \<mapsto> \<lparr>tv_sec = uint lifetime, tv_usec = 0\<rparr>)\<rparr>)"
proof -
  from find_exact_Some [OF assms] obtain a m where
    f: "find (exact_match pr r0) (mappings s) = Some (a, m)"
    and m: "(a, m) \<in> set (mappings s)" and e: "exact_match pr r0 (a, m)"
    by blast
  have u: "(a, m) = x" if "one_per_key s"
  proof (rule distinct_map_eq)
    show "distinct (map (\<lambda>(a, m). (proto m, rdr m)) (mappings s))"
      using that by (simp add: one_per_key_def)
    show "(a, m) \<in> set (mappings s)" by (rule m)
    show "x \<in> set (mappings s)" by (rule assms(1))
    show "(case (a, m) of (a, m) \<Rightarrow> (proto m, rdr m)) = (case x of (a, m) \<Rightarrow> (proto m, rdr m))"
      using e assms(2) by (cases x) (simp add: exact_match_def)
  qed
  from e have "proto m = ucast pr" "rdr m = r0" by (simp_all add: exact_match_def)
  with f m u create_refresh [OF f] show ?thesis by blast
qed

theorem refresh_keeps_stored_port_witness:
  "(1, ex_udp) \<in> set (mappings ex_store) \<and> exact_match IPPROTO_UDP ex_client (1, ex_udp)
   \<and> one_per_key ex_store
   \<and> (\<exists>s1. natpmp_create_mapping IPPROTO_UDP ex_client (external_sockaddr 0xC6336401 12345) 7200
              (Some 2) 0 ex_store = Inr (0, external_sockaddr 0xC6336401 50000, s1)
           \<and> mappings s1 = mappings ex_store
           \<and> timers s1 1 = Some \<lparr>tv_sec = 7200, tv_usec = 0\<rparr>)"
proof -
  have h1: "(1, ex_udp) \<in> set (mappings ex_store)" by (simp add: ex_store_def)
  have h2: "exact_match IPPROTO_UDP ex_client (1, ex_udp)"
    by (simp add: exact_match_def ex_udp_def IPPROTO_UDP_def)
  have h3: "one_per_key ex_store" by (simp add: one_per_key_def ex_store_def)
  from refresh_keeps_stored_port [OF h1 h2, of "external_sockaddr 0xC6336401 12345" 7200 "Some 2" 0] h3
  show ?thesis
    using h1 h2 by (auto simp: ex_udp_def external_sockaddr_def)
qed

subsection \<open>The external port of a new mapping\<close>

text \<open>
  Claim C3. When no mapping has the protocol and internal sockaddr of the call and some
  mapping has another protocol and the same internal sockaddr, the new mapping gets the
  external port of such a related mapping: the last one in the list, which is the only
  one when the store has one mapping per key and holds UDP and TCP mappings only. The
  example creates a TCP mapping for an internal sockaddr that has a UDP mapping.
\<close>

theorem related_port_reused:
  assumes "\<forall>y \<in> set (mappings s). \<not> exact_match pr r0 y"
    and "x \<in> set (mappings s)" and "related_match pr r0 x"
  shows "\<exists>b rm. (b, rm) = last (filter (related_match pr r0) (mappings s))
           \<and> (b, rm) \<in> set (mappings s) \<and> proto rm \<noteq> ucast pr \<and> rdr rm = r0
           \<and> (one_per_key s \<and> udp_or_tcp (ucast pr) \<and> (\<forall>y \<in> set (mappings s). udp_or_tcp (proto (snd y)))
                \<longrightarrow> (b, rm) = x)
           \<and> natpmp_create_mapping pr r0 d0 lifetime (Some a) draw s =
                Inr (1, d0\<lparr>sin_port := sin_port (dst rm)\<rparr>,
                     s\<lparr>mappings := (a, \<lparr>proto = ucast pr, dst = d0\<lparr>sin_port := sin_port (dst rm)\<rparr>,
                                        rdr = r0\<rparr>) # mappings s,
                       timers := (timers s)(a \<mapsto> \<lparr>tv_sec = uint lifetime, tv_usec = 0\<rparr>)\<rparr>)"
proof -
  let ?rel = "filter (related_match pr r0) (mappings s)"
  from assms(2,3) have ne: "?rel \<noteq> []" by (auto simp: filter_empty_conv)
  obtain b rm where l: "(b, rm) = last ?rel" by (cases "last ?rel") auto
  from ne have "last ?rel \<in> set ?rel" by (rule last_in_set)
  with l have m: "(b, rm) \<in> set (mappings s)" and r: "related_match pr r0 (b, rm)" by auto
  from assms(1) have f: "find (exact_match pr r0) (mappings s) = None"
    by (simp add: find_None_iff)
  have c: "natpmp_create_mapping pr r0 d0 lifetime (Some a) draw s =
                Inr (1, d0\<lparr>sin_port := sin_port (dst rm)\<rparr>,
                     s\<lparr>mappings := (a, \<lparr>proto = ucast pr, dst = d0\<lparr>sin_port := sin_port (dst rm)\<rparr>,
                                        rdr = r0\<rparr>) # mappings s,
                       timers := (timers s)(a \<mapsto> \<lparr>tv_sec = uint lifetime, tv_usec = 0\<rparr>)\<rparr>)"
    using ne l [symmetric] by (simp add: create_insert [OF f] Let_def)
  have u: "(b, rm) = x"
    if "one_per_key s" "udp_or_tcp (ucast pr)" "\<forall>y \<in> set (mappings s). udp_or_tcp (proto (snd y))"
  proof (rule distinct_map_eq)
    show "distinct (map (\<lambda>(a, m). (proto m, rdr m)) (mappings s))"
      using that(1) by (simp add: one_per_key_def)
    show "(b, rm) \<in> set (mappings s)" by (rule m)
    show "x \<in> set (mappings s)" by (rule assms(2))
    have "udp_or_tcp (proto rm)" "udp_or_tcp (proto (snd x))"
      using that(3) m assms(2) by auto
    with that(2) r assms(3)
    show "(case (b, rm) of (a, m) \<Rightarrow> (proto m, rdr m)) = (case x of (a, m) \<Rightarrow> (proto m, rdr m))"
      by (cases x) (auto simp: related_match_def udp_or_tcp_def)
  qed
  from r have "proto rm \<noteq> ucast pr" "rdr rm = r0" by (simp_all add: related_match_def)
  with l m u c show ?thesis by blast
qed

theorem related_port_reused_witness:
  "\<not> (\<exists>y \<in> set (mappings ex_store). exact_match IPPROTO_TCP ex_client y)
   \<and> (1, ex_udp) \<in> set (mappings ex_store) \<and> related_match IPPROTO_TCP ex_client (1, ex_udp)
   \<and> one_per_key ex_store \<and> udp_or_tcp (ucast IPPROTO_TCP)
   \<and> list_all (\<lambda>y. udp_or_tcp (proto (snd y))) (mappings ex_store)
   \<and> (\<exists>s1. natpmp_create_mapping IPPROTO_TCP ex_client (external_sockaddr 0xC6336401 0) 3600
              (Some 2) 7 ex_store = Inr (1, external_sockaddr 0xC6336401 50000, s1)
           \<and> mappings s1 =
               [(2, \<lparr>proto = 6, dst = external_sockaddr 0xC6336401 50000, rdr = ex_client\<rparr>),
                (1, ex_udp)])"
proof -
  have h1: "\<forall>y \<in> set (mappings ex_store). \<not> exact_match IPPROTO_TCP ex_client y"
    by (simp add: ex_store_def exact_match_def ex_udp_def IPPROTO_TCP_def)
  have h2: "(1, ex_udp) \<in> set (mappings ex_store)" by (simp add: ex_store_def)
  have h3: "related_match IPPROTO_TCP ex_client (1, ex_udp)"
    by (simp add: related_match_def ex_udp_def IPPROTO_TCP_def)
  have h4: "one_per_key ex_store" by (simp add: one_per_key_def ex_store_def)
  have h5: "udp_or_tcp (ucast IPPROTO_TCP)" by (simp add: udp_or_tcp_def)
  have h6: "\<forall>y \<in> set (mappings ex_store). udp_or_tcp (proto (snd y))"
    by (simp add: ex_store_def ex_udp_def udp_or_tcp_def IPPROTO_UDP_def)
  from related_port_reused [OF h1 h2 h3, of "external_sockaddr 0xC6336401 0" 3600 2 7] h4 h5 h6
  show ?thesis
    using h1 h2 h3
    by (auto simp: ex_udp_def external_sockaddr_def ex_store_def IPPROTO_TCP_def list_all_iff)
qed

lemma random_port_unat:
  fixes draw :: u32
  shows "unat (ucast (49152 + draw mod 16383 :: u32) :: u16) = 49152 + unat draw mod 16383"
proof -
  have m: "unat (draw mod 16383) = unat draw mod 16383"
    by (simp add: unat_mod)
  have "unat draw mod 16383 < 16383" by simp
  then have a: "unat (49152 + draw mod 16383) = 49152 + unat draw mod 16383"
    by (simp add: unat_word_ariths m)
  have "unat (ucast (49152 + draw mod 16383 :: u32) :: u16) = unat (49152 + draw mod 16383) mod 65536"
    by (simp add: unsigned_ucast_eq take_bit_eq_mod)
  with a \<open>unat draw mod 16383 < 16383\<close> show ?thesis by simp
qed

text \<open>
  Claim C2. When no mapping has the internal sockaddr of the call, under the same or
  another protocol, the external port of the new mapping is
  \<^verbatim>\<open>IPPORT_HIFIRSTAUTO + arc4random_uniform(IPPORT_HILASTAUTO - IPPORT_HIFIRSTAUTO)\<close>,
  whatever port the caller asked for. The bound of the draw is 16383 and is exclusive,
  so the port lies between 49152 and 65534: port 65535, the last port of the range, is
  never assigned.
\<close>

theorem random_port_misses_last:
  assumes "\<forall>y \<in> set (mappings s). \<not> exact_match pr r0 y \<and> \<not> related_match pr r0 y"
  shows "\<exists>p. natpmp_create_mapping pr r0 d0 lifetime (Some a) draw s =
                Inr (1, d0\<lparr>sin_port := p\<rparr>,
                     s\<lparr>mappings := (a, \<lparr>proto = ucast pr, dst = d0\<lparr>sin_port := p\<rparr>, rdr = r0\<rparr>)
                                      # mappings s,
                       timers := (timers s)(a \<mapsto> \<lparr>tv_sec = uint lifetime, tv_usec = 0\<rparr>)\<rparr>)
           \<and> unat p = 49152 + unat draw mod 16383
           \<and> 49152 \<le> p \<and> p \<le> 65534 \<and> p \<noteq> 65535"
proof -
  let ?p = "ucast (49152 + draw mod 16383 :: u32) :: u16"
  from assms have f: "find (exact_match pr r0) (mappings s) = None"
    by (simp add: find_None_iff)
  from assms have e: "filter (related_match pr r0) (mappings s) = []"
    by (simp add: filter_empty_conv)
  have c: "natpmp_create_mapping pr r0 d0 lifetime (Some a) draw s =
                Inr (1, d0\<lparr>sin_port := ?p\<rparr>,
                     s\<lparr>mappings := (a, \<lparr>proto = ucast pr, dst = d0\<lparr>sin_port := ?p\<rparr>, rdr = r0\<rparr>)
                                      # mappings s,
                       timers := (timers s)(a \<mapsto> \<lparr>tv_sec = uint lifetime, tv_usec = 0\<rparr>)\<rparr>)"
    by (simp add: create_insert [OF f] e Let_def)
  have u: "unat ?p = 49152 + unat draw mod 16383" by (rule random_port_unat)
  have "unat draw mod 16383 < 16383" by simp
  with u have lo: "49152 \<le> unat ?p" and hi: "unat ?p \<le> 65534" by simp_all
  from lo have 1: "49152 \<le> ?p" by (simp add: word_le_nat_alt)
  from hi have 2: "?p \<le> 65534" by (simp add: word_le_nat_alt)
  have 3: "?p \<noteq> 65535"
  proof
    assume "?p = 65535"
    then have "unat ?p = 65535" by simp
    with hi show False by simp
  qed
  from c u 1 2 3 show ?thesis by blast
qed

theorem random_port_misses_last_witness:
  "\<not> (\<exists>y \<in> set (mappings ex_store).
      exact_match IPPROTO_UDP (inet_sockaddr 0x0A000005 45001) y
      \<or> related_match IPPROTO_UDP (inet_sockaddr 0x0A000005 45001) y)
   \<and> (\<exists>s1. natpmp_create_mapping IPPROTO_UDP (inet_sockaddr 0x0A000005 45001)
              (external_sockaddr 0xC6336401 65535) 3600 (Some 2) 16382 ex_store
            = Inr (1, external_sockaddr 0xC6336401 65534, s1))
   \<and> (\<exists>s1. natpmp_create_mapping IPPROTO_UDP (inet_sockaddr 0x0A000005 45001)
              (external_sockaddr 0xC6336401 65535) 3600 (Some 2) 16383 ex_store
            = Inr (1, external_sockaddr 0xC6336401 49152, s1))"
proof -
  have h: "\<forall>y \<in> set (mappings ex_store).
      \<not> exact_match IPPROTO_UDP (inet_sockaddr 0x0A000005 45001) y
      \<and> \<not> related_match IPPROTO_UDP (inet_sockaddr 0x0A000005 45001) y"
    by (simp add: ex_store_def exact_match_def related_match_def ex_udp_def ex_client_def
        inet_sockaddr_def)
  have p: "\<And>p :: u16. unat p = 49152 + unat (16382 :: u32) mod 16383 \<Longrightarrow> p = 65534"
    "\<And>p :: u16. unat p = 49152 + unat (16383 :: u32) mod 16383 \<Longrightarrow> p = 49152"
    by (simp_all add: word_unat_eq_iff)
  from random_port_misses_last [OF h, of "external_sockaddr 0xC6336401 65535" 3600 2 16382]
  have a: "\<exists>s1. natpmp_create_mapping IPPROTO_UDP (inet_sockaddr 0x0A000005 45001)
              (external_sockaddr 0xC6336401 65535) 3600 (Some 2) 16382 ex_store
            = Inr (1, external_sockaddr 0xC6336401 65534, s1)"
    using p(1) by (auto simp: external_sockaddr_def)
  from random_port_misses_last [OF h, of "external_sockaddr 0xC6336401 65535" 3600 2 16383]
  have b: "\<exists>s1. natpmp_create_mapping IPPROTO_UDP (inet_sockaddr 0x0A000005 45001)
              (external_sockaddr 0xC6336401 65535) 3600 (Some 2) 16383 ex_store
            = Inr (1, external_sockaddr 0xC6336401 49152, s1)"
    using p(2) by (auto simp: external_sockaddr_def)
  from h have h': "\<not> (\<exists>y \<in> set (mappings ex_store).
      exact_match IPPROTO_UDP (inet_sockaddr 0x0A000005 45001) y
      \<or> related_match IPPROTO_UDP (inet_sockaddr 0x0A000005 45001) y)"
    by blast
  from h' a b show ?thesis by blast
qed

subsection \<open>Removing mappings\<close>

text \<open>
  Claim C5. \<^verbatim>\<open>natpmp_remove_mapping\<close> looks for the mappings of the protocol and internal
  address, of any port when the given port is 0 and of the given port otherwise. When
  none matches it returns 0 and leaves the store as it was. When one matches, the loop
  deletes its timer, unlinks and frees it, and then reads the freed mapping to find the
  next one: the call does not return the number of mappings removed, it ends in a read
  of freed memory.
\<close>

theorem remove_mapping_use_after_free:
  "natpmp_remove_mapping pr r s =
     (if \<exists>x \<in> set (mappings s). remove_match pr r (snd x) then Inl UseAfterFree
      else Inr (0, s))
   \<and> (remove_match pr r m \<longleftrightarrow>
        (if sin_port r = 0 then proto m = ucast pr \<and> sin_addr (rdr m) = sin_addr r
         else proto m = ucast pr \<and> sin_addr (rdr m) = sin_addr r
              \<and> sin_port (rdr m) = sin_port r))"
  by (simp add: natpmp_remove_mapping_eq remove_match_def)

theorem remove_mapping_use_after_free_witness:
  "natpmp_remove_mapping IPPROTO_UDP ex_client ex_store = Inl UseAfterFree
   \<and> natpmp_remove_mapping IPPROTO_UDP (inet_sockaddr 0x0A000005 0) ex_store = Inl UseAfterFree
   \<and> natpmp_remove_mapping IPPROTO_TCP ex_client ex_store = Inr (0, ex_store)"
proof -
  have m: "remove_match IPPROTO_UDP (inet_sockaddr 0x0A000005 0) ex_udp"
    "remove_match IPPROTO_UDP ex_client ex_udp" "\<not> remove_match IPPROTO_TCP ex_client ex_udp"
    by (simp_all add: remove_match_def ex_udp_def ex_client_def inet_sockaddr_def
        IPPROTO_UDP_def IPPROTO_TCP_def)
  from remove_mapping_use_after_free [of IPPROTO_UDP ex_client ex_store]
    remove_mapping_use_after_free [of IPPROTO_UDP "inet_sockaddr 0x0A000005 0" ex_store]
    remove_mapping_use_after_free [of IPPROTO_TCP ex_client ex_store] m
  show ?thesis by (simp add: ex_store_def)
qed

subsection \<open>One mapping per key\<close>











text \<open>No timer outlives its mapping: the timers stay linked to mappings of the list,
  so the callback of a pending timer always finds its mapping.\<close>

lemma create_timers_linked:
  assumes "timers_linked s"
    and "natpmp_create_mapping pr r0 d0 lifetime new draw s = Inr (count, d1, s1)"
  shows "timers_linked s1"
proof (cases "find (exact_match pr r0) (mappings s)")
  case (Some y)
  obtain a m where y: "y = (a, m)" by (cases y)
  with Some have "(a, m) \<in> set (mappings s)" by (auto simp: find_Some_iff)
  then have a: "a \<in> fst ` set (mappings s)" by force
  from Some y assms(2) have "mappings s1 = mappings s" "dom (timers s1) = insert a (dom (timers s))"
    by (auto simp: create_refresh)
  with a assms(1) show ?thesis by (simp add: timers_linked_def)
next
  case None
  from assms(2) None obtain a where new: "new = Some a"
    by (cases new) (simp_all add: create_fatal)
  from assms(2) have "fst ` set (mappings s1) = insert a (fst ` set (mappings s))"
    "dom (timers s1) = insert a (dom (timers s))"
    unfolding new create_insert [OF None] Let_def by auto
  with assms(1) show ?thesis by (auto simp: timers_linked_def)
qed

lemma remove_timers_linked:
  "timers_linked s \<Longrightarrow> natpmp_remove_mapping pr r0 s = Inr (count, s1) \<Longrightarrow> timers_linked s1"
  by (auto dest: natpmp_remove_mapping_Inr)

lemma timer_fire_timers_linked:
  assumes "timers_linked s" and "timer_fire a s = Inr s1"
  shows "timers_linked s1"
proof -
  from assms(2) have s1: "mappings s1 = filter (\<lambda>x. fst x \<noteq> a) (mappings s)"
    "timers s1 = (timers s)(a := None)"
    by (auto simp: timer_fire_def expire_mapping_def evtimer_del_def LIST_REMOVE_def
        rebuild_rules_def split: if_splits)
  have l: "fst ` set (mappings s) \<subseteq> insert a (fst ` set (filter (\<lambda>x. fst x \<noteq> a) (mappings s)))"
    by force
  from assms(1) have "dom (timers s) \<subseteq> fst ` set (mappings s)" by (simp add: timers_linked_def)
  with l have "dom (timers s) - {a} \<subseteq> fst ` set (filter (\<lambda>x. fst x \<noteq> a) (mappings s))"
    by blast
  then show ?thesis by (simp add: timers_linked_def s1)
qed

lemma timer_fire_linked_succeeds:
  assumes "timers_linked s" and "timers s a \<noteq> None"
  shows "\<exists>s1. timer_fire a s = Inr s1"
proof -
  from assms have "a \<in> fst ` set (mappings s)" by (auto simp: timers_linked_def)
  with assms(2) show ?thesis
    by (simp add: timer_fire_def expire_mapping_def evtimer_pending_def evtimer_del_def)
qed

subsection \<open>\<^verbatim>\<open>natpmp_mapping\<close>: the three kinds of request\<close>

lemma mapping_port0:
  "sin_port r0 = 0 \<Longrightarrow>
   natpmp_mapping response pr r0 d0 lifetime new draw s =
     (case natpmp_remove_mapping pr r0 s of
        Inl f \<Rightarrow> Inl f
      | Inr (count, s1) \<Rightarrow> Inr (16, set_mapping_data 0 0 0 response, rebuild_if count s1))"
  by (simp add: natpmp_mapping_def)

lemma mapping_lifetime0:
  "sin_port r0 \<noteq> 0 \<Longrightarrow>
   natpmp_mapping response pr r0 d0 0 new draw s =
     (case natpmp_remove_mapping pr r0 s of
        Inl f \<Rightarrow> Inl f
      | Inr (count, s1) \<Rightarrow>
          Inr (16, set_mapping_data (sin_port r0) 0 0 response, rebuild_if count s1))"
  by (simp add: natpmp_mapping_def word_greater_zero_iff)

lemma mapping_create:
  "sin_port r0 \<noteq> 0 \<Longrightarrow> lifetime \<noteq> 0 \<Longrightarrow>
   natpmp_mapping response pr r0 d0 lifetime new draw s =
     (case natpmp_create_mapping pr r0 d0 lifetime new draw s of
        Inl f \<Rightarrow> Inl f
      | Inr (count, d1, s1) \<Rightarrow>
          Inr (16, set_mapping_data (sin_port r0) (sin_port d1) lifetime response,
               rebuild_if count s1))"
  by (simp add: natpmp_mapping_def word_greater_zero_iff ntohl_def)

lemma mappings_rebuild_if: "mappings (rebuild_if count s) = mappings s"
  by (simp add: rebuild_if_def rebuild_rules_def)

lemma timers_rebuild_if: "timers (rebuild_if count s) = timers s"
  by (simp add: rebuild_if_def rebuild_rules_def)

subsection \<open>When the rules are rebuilt\<close>







subsection \<open>The response to a mapping request\<close>

lemma split16:
  "16 \<le> length xs \<Longrightarrow>
   \<exists>b0 b1 b2 b3 b4 b5 b6 b7 b8 b9 b10 b11 b12 b13 b14 b15 rest.
     xs = b0 # b1 # b2 # b3 # b4 # b5 # b6 # b7 # b8 # b9 # b10 # b11 # b12 # b13 # b14 # b15 # rest"
  by (simp add: numeral_eq_Suc Suc_le_length_iff) blast

lemma mapping_response_bytes:
  assumes "16 \<le> length resp"
  shows "send_response request 16
           (set_mapping_data p0 p1 lt
              (store_bytes 2 (be16 res)
                 (store_bytes 4 (be32 ss) (store_bytes 0 [NATPMPD_MAX_VERSION] resp))))
         = spec_mapping_response (request ! 1) res ss p0 p1 lt"
proof -
  from split16 [OF assms] obtain b0 b1 b2 b3 b4 b5 b6 b7 b8 b9 b10 b11 b12 b13 b14 b15 rest
    where "resp = b0 # b1 # b2 # b3 # b4 # b5 # b6 # b7 # b8 # b9 # b10 # b11 # b12 # b13 # b14 # b15 # rest"
    by blast
  then show ?thesis
    by (simp add: send_response_def set_mapping_data_def store_bytes_def be16_def be32_def
        spec_mapping_response_def)
qed

lemma natpmp_handler_map:
  assumes "map_request response_storage request sock"
  shows "natpmp_handler response_storage env now request sock new draw s =
     (case natpmp_mapping
             (store_bytes 2 (be16 (result_code env))
                (store_bytes 4 (be32 (sssoe env now))
                   (store_bytes 0 [NATPMPD_MAX_VERSION] response_storage)))
             (request_proto request) (request_rdr sock request) (request_dst env request)
             (load32 request 8) new draw s of
        Inl f \<Rightarrow> Inl f
      | Inr (len, response', s') \<Rightarrow> Inr (Some (send_response request len response'), s'))"
  using assms
  unfolding map_request_def natpmp_handler_def Let_def request_proto_def request_rdr_def
    request_dst_def result_code_def htonl_def
  by (auto simp: NATPMP_MAX_VERSION_def NATPMP_OPCODE_ANNOUNCE_def NATPMP_OPCODE_MAP_UDP_def
      NATPMP_OPCODE_MAP_TCP_def)

lemma common_handler_map:
  assumes "map_request response_storage request sock"
  shows "common_handler response_storage env now request sock new draw s =
         natpmp_handler response_storage env now request sock new draw s"
  using assms
  by (auto simp: common_handler_def map_request_def NATPMP_OPCODE_MAP_UDP_def
      NATPMP_OPCODE_MAP_TCP_def)

lemma handler_port0:
  assumes "map_request response_storage request sock" and "load16 request 4 = 0"
  shows "natpmp_handler response_storage env now request sock new draw s =
     (if \<exists>x \<in> set (mappings s).
           remove_match (request_proto request) (request_rdr sock request) (snd x)
      then Inl UseAfterFree
      else Inr (Some (spec_mapping_response (request ! 1) (result_code env) (sssoe env now)
                        0 0 0), s))"
proof -
  from assms(1) have l: "16 \<le> length response_storage" by (simp add: map_request_def)
  from assms(2) have p: "sin_port (request_rdr sock request) = 0" by (simp add: request_rdr_def)
  show ?thesis
    by (simp add: natpmp_handler_map [OF assms(1)] mapping_port0 [OF p]
        natpmp_remove_mapping_eq mapping_response_bytes [OF l] rebuild_if_def)
qed

lemma handler_lifetime0:
  assumes "map_request response_storage request sock" and "load16 request 4 \<noteq> 0"
    and "load32 request 8 = 0"
  shows "natpmp_handler response_storage env now request sock new draw s =
     (if \<exists>x \<in> set (mappings s).
           remove_match (request_proto request) (request_rdr sock request) (snd x)
      then Inl UseAfterFree
      else Inr (Some (spec_mapping_response (request ! 1) (result_code env) (sssoe env now)
                        (load16 request 4) 0 0), s))"
proof -
  from assms(1) have l: "16 \<le> length response_storage" by (simp add: map_request_def)
  from assms(2) have p: "sin_port (request_rdr sock request) \<noteq> 0" by (simp add: request_rdr_def)
  have q: "sin_port (request_rdr sock request) = load16 request 4" by (simp add: request_rdr_def)
  show ?thesis
    by (simp add: natpmp_handler_map [OF assms(1)] assms(3) mapping_lifetime0 [OF p]
        natpmp_remove_mapping_eq mapping_response_bytes [OF l] q rebuild_if_def)
qed

lemma handler_create:
  assumes "map_request response_storage request sock" and "load16 request 4 \<noteq> 0"
    and "load32 request 8 \<noteq> 0"
  shows "natpmp_handler response_storage env now request sock new draw s =
     (case natpmp_create_mapping (request_proto request) (request_rdr sock request)
             (request_dst env request) (load32 request 8) new draw s of
        Inl f \<Rightarrow> Inl f
      | Inr (count, d1, s1) \<Rightarrow>
          Inr (Some (spec_mapping_response (request ! 1) (result_code env) (sssoe env now)
                       (load16 request 4) (sin_port d1) (load32 request 8)),
               rebuild_if count s1))"
proof -
  from assms(1) have l: "16 \<le> length response_storage" by (simp add: map_request_def)
  from assms(2) have p: "sin_port (request_rdr sock request) \<noteq> 0" by (simp add: request_rdr_def)
  have q: "sin_port (request_rdr sock request) = load16 request 4" by (simp add: request_rdr_def)
  show ?thesis
    by (simp add: natpmp_handler_map [OF assms(1)] mapping_create [OF p assms(3)]
        mapping_response_bytes [OF l] q split: sum.splits)
qed

lemma ex_requests:
  "map_request ex_stack ex_map_udp ex_sock" "map_request ex_stack ex_delete_one ex_sock"
  "map_request ex_stack ex_delete_all ex_sock"
  "load16 ex_map_udp 4 = 45000" "load16 ex_map_udp 6 = 0" "load32 ex_map_udp 8 = 3600"
  "load16 ex_delete_one 4 = 45000" "load32 ex_delete_one 8 = 0"
  "load16 ex_delete_all 4 = 0"
  "request_proto ex_map_udp = IPPROTO_UDP" "request_proto ex_delete_one = IPPROTO_UDP"
  "request_proto ex_delete_all = IPPROTO_UDP"
  by (simp_all add: map_request_def ex_stack_def ex_map_udp_def ex_delete_one_def
      ex_delete_all_def ex_sock_def inet_sockaddr_def load16_def load32_def request_proto_def
      NATPMP_OPCODE_MAP_UDP_def NATPMP_OPCODE_MAP_TCP_def)

lemma ex_requests_tcp:
  "map_request ex_stack ex_map_tcp ex_sock"
  "load16 ex_map_tcp 4 = 45000" "load16 ex_map_tcp 6 = 0" "load32 ex_map_tcp 8 = 3600"
  "request_proto ex_map_tcp = IPPROTO_TCP"
  by (simp_all add: map_request_def ex_stack_def ex_map_tcp_def
      ex_sock_def inet_sockaddr_def load16_def load32_def request_proto_def
      NATPMP_OPCODE_MAP_UDP_def NATPMP_OPCODE_MAP_TCP_def)

lemma ex_requests_delete_tcp:
  "map_request ex_stack ex_delete_tcp ex_sock"
  "load16 ex_delete_tcp 4 = 45000" "load32 ex_delete_tcp 8 = 0"
  "request_proto ex_delete_tcp = IPPROTO_TCP"
  by (simp_all add: map_request_def ex_stack_def ex_delete_tcp_def
      ex_sock_def inet_sockaddr_def load16_def load32_def request_proto_def
      NATPMP_OPCODE_MAP_UDP_def NATPMP_OPCODE_MAP_TCP_def)

text \<open>
  Claim C4. A mapping request is handled by the table as far as the removal loop lets
  it. Internal port and lifetime above 0: \<^verbatim>\<open>natpmp_create_mapping\<close> runs on the client's
  sockaddr with the requested internal port, and the response carries the internal
  port, the external port that call assigned and the requested lifetime (no response
  when \<^verbatim>\<open>calloc\<close> fails and the daemon exits). Internal port 0: when no mapping of the
  protocol and the client's address exists, the response carries ports 0 and 0 and
  lifetime 0; when one exists, \<^verbatim>\<open>natpmp_remove_mapping\<close> reads freed memory and the
  handler does not get to its response. Internal port above 0 and lifetime 0: the same
  with the mappings of the protocol, the client's address and that port, and a response
  that carries the internal port, port 0 and lifetime 0.
\<close>

theorem mapping_request_table:
  assumes "map_request response_storage request sock"
  shows
    "(load16 request 4 = 0 \<longrightarrow>
        common_handler response_storage env now request sock new draw s =
          (if \<exists>x \<in> set (mappings s). proto (snd x) = ucast (request_proto request)
                                      \<and> sin_addr (rdr (snd x)) = sin_addr sock
           then Inl UseAfterFree
           else Inr (Some (spec_mapping_response (request ! 1) (result_code env)
                             (sssoe env now) 0 0 0), s)))
     \<and> (load16 request 4 \<noteq> 0 \<and> load32 request 8 = 0 \<longrightarrow>
        common_handler response_storage env now request sock new draw s =
          (if \<exists>x \<in> set (mappings s). proto (snd x) = ucast (request_proto request)
                                      \<and> sin_addr (rdr (snd x)) = sin_addr sock
                                      \<and> sin_port (rdr (snd x)) = load16 request 4
           then Inl UseAfterFree
           else Inr (Some (spec_mapping_response (request ! 1) (result_code env)
                             (sssoe env now) (load16 request 4) 0 0), s)))
     \<and> (load16 request 4 \<noteq> 0 \<and> load32 request 8 \<noteq> 0 \<longrightarrow>
        common_handler response_storage env now request sock new draw s =
          (case natpmp_create_mapping (request_proto request)
                  (sock\<lparr>sin_port := load16 request 4\<rparr>) (request_dst env request)
                  (load32 request 8) new draw s of
             Inl f \<Rightarrow> Inl f
           | Inr (count, d1, s1) \<Rightarrow>
               Inr (Some (spec_mapping_response (request ! 1) (result_code env) (sssoe env now)
                            (load16 request 4) (sin_port d1) (load32 request 8)),
                    rebuild_if count s1)))"
proof -
  have 1: "remove_match (request_proto request) (request_rdr sock request) m \<longleftrightarrow>
             proto m = ucast (request_proto request) \<and> sin_addr (rdr m) = sin_addr sock"
    if "load16 request 4 = 0" for m
    using that by (simp add: remove_match_def request_rdr_def)
  have 2: "remove_match (request_proto request) (request_rdr sock request) m \<longleftrightarrow>
             proto m = ucast (request_proto request) \<and> sin_addr (rdr m) = sin_addr sock
             \<and> sin_port (rdr m) = load16 request 4"
    if "load16 request 4 \<noteq> 0" for m
    using that by (simp add: remove_match_def request_rdr_def)
  show ?thesis
    using 1 2
    by (simp add: common_handler_map [OF assms] handler_port0 [OF assms]
        handler_lifetime0 [OF assms] handler_create [OF assms] request_rdr_def)
qed

theorem mapping_request_table_witness:
  "map_request ex_stack ex_delete_all ex_sock \<and> load16 ex_delete_all 4 = 0
   \<and> common_handler ex_stack ex_env 1060 ex_delete_all ex_sock None 0 ex_store =
       Inl UseAfterFree
   \<and> map_request ex_stack ex_delete_one ex_sock
   \<and> load16 ex_delete_one 4 \<noteq> 0 \<and> load32 ex_delete_one 8 = 0
   \<and> common_handler ex_stack ex_env 1060 ex_delete_one ex_sock None 0 ex_store =
       Inl UseAfterFree
   \<and> map_request ex_stack ex_delete_tcp ex_sock
   \<and> load16 ex_delete_tcp 4 \<noteq> 0 \<and> load32 ex_delete_tcp 8 = 0
   \<and> common_handler ex_stack ex_env 1060 ex_delete_tcp ex_sock None 0 ex_store =
       Inr (Some [0, 0x82, 0, 0, 0, 0, 0, 60, 0xAF, 0xC8, 0, 0, 0, 0, 0, 0], ex_store)
   \<and> map_request ex_stack ex_map_udp ex_sock
   \<and> load16 ex_map_udp 4 \<noteq> 0 \<and> load32 ex_map_udp 8 \<noteq> 0
   \<and> (\<exists>s'. common_handler ex_stack ex_env 1060 ex_map_udp ex_sock None 0 ex_store =
             Inr (Some [0, 0x81, 0, 0, 0, 0, 0, 60, 0xAF, 0xC8, 0xC3, 0x50, 0, 0, 0x0E, 0x10], s')
          \<and> mappings s' = mappings ex_store)"
proof -
  have e: "result_code ex_env = 0" "sssoe ex_env 1060 = 60"
    by (simp_all add: result_code_def ex_env_def IN6_IS_ADDR_V4MAPPED_ANY_def
        IN6ADDR_V4MAPPED_INIT_def NATPMP_SUCCESS_def sssoe_def)
  have c: "ex_sock\<lparr>sin_port := 45000\<rparr> = ex_client"
    by (simp add: ex_sock_def ex_client_def inet_sockaddr_def)
  have m: "mappings ex_store = [(1, ex_udp)]" "proto ex_udp = 17"
    "sin_addr (rdr ex_udp) = sin_addr ex_sock" "sin_port (rdr ex_udp) = 45000"
    by (simp_all add: ex_store_def ex_udp_def ex_client_def ex_sock_def inet_sockaddr_def)
  from mapping_request_table [OF ex_requests(3), of ex_env 1060 None 0 ex_store]
  have 1: "common_handler ex_stack ex_env 1060 ex_delete_all ex_sock None 0 ex_store =
       Inl UseAfterFree"
    by (simp add: ex_requests m IPPROTO_UDP_def)
  from mapping_request_table [OF ex_requests(2), of ex_env 1060 None 0 ex_store]
  have 2: "common_handler ex_stack ex_env 1060 ex_delete_one ex_sock None 0 ex_store =
       Inl UseAfterFree"
    by (simp add: ex_requests m IPPROTO_UDP_def)
  from mapping_request_table [OF ex_requests_delete_tcp(1), of ex_env 1060 None 0 ex_store]
  have 3: "common_handler ex_stack ex_env 1060 ex_delete_tcp ex_sock None 0 ex_store =
       Inr (Some [0, 0x82, 0, 0, 0, 0, 0, 60, 0xAF, 0xC8, 0, 0, 0, 0, 0, 0], ex_store)"
    by (simp add: ex_requests_delete_tcp e m IPPROTO_TCP_def spec_mapping_response_def
        NATPMPD_MAX_VERSION_def ex_bytes)
      (simp add: ex_delete_tcp_def)
  from mapping_request_table [OF ex_requests(1), of ex_env 1060 None 0 ex_store]
  have 4: "\<exists>s'. common_handler ex_stack ex_env 1060 ex_map_udp ex_sock None 0 ex_store =
             Inr (Some [0, 0x81, 0, 0, 0, 0, 0, 60, 0xAF, 0xC8, 0xC3, 0x50, 0, 0, 0x0E, 0x10], s')
          \<and> mappings s' = mappings ex_store"
    by (simp add: ex_requests e c ex_refresh spec_mapping_response_def NATPMPD_MAX_VERSION_def
        ex_bytes mappings_rebuild_if)
      (simp add: ex_map_udp_def)
  from 1 2 3 4 ex_requests ex_requests_delete_tcp show ?thesis by simp
qed

text \<open>
  Claim C10. While the external address is unspecified the handler still serves a
  mapping request, with the network-failure code, which is not the success code, as the
  result: a creation or refresh runs as it does otherwise, on the external address
  0.0.0.0, which a new mapping gets, and the response carries the ports and the
  lifetime; a removal that matches nothing is answered with the internal port, port 0
  and lifetime 0. A removal that matches a mapping ends in the removal loop's read of
  freed memory, as it does with a known external address, and is not answered.
\<close>

theorem unspecified_address_still_maps:
  assumes "map_request response_storage request sock"
    and "IN6_IS_ADDR_V4MAPPED_ANY (sc_address env)"
  shows
    "result_code env = NATPMP_NETWORK_FAILURE \<and> NATPMP_NETWORK_FAILURE \<noteq> NATPMP_SUCCESS
     \<and> request_dst env request = external_sockaddr 0 (load16 request 6)
     \<and> (load16 request 4 = 0 \<or> load32 request 8 = 0 \<longrightarrow>
          common_handler response_storage env now request sock new draw s =
            (if \<exists>x \<in> set (mappings s).
                  remove_match (request_proto request) (sock\<lparr>sin_port := load16 request 4\<rparr>)
                    (snd x)
             then Inl UseAfterFree
             else Inr (Some (spec_mapping_response (request ! 1) NATPMP_NETWORK_FAILURE
                               (sssoe env now) (load16 request 4) 0 0), s)))
     \<and> (load16 request 4 \<noteq> 0 \<and> load32 request 8 \<noteq> 0 \<longrightarrow>
          common_handler response_storage env now request sock new draw s =
            (case natpmp_create_mapping (request_proto request)
                    (sock\<lparr>sin_port := load16 request 4\<rparr>)
                    (external_sockaddr 0 (load16 request 6)) (load32 request 8) new draw s of
               Inl f \<Rightarrow> Inl f
             | Inr (count, d1, s1) \<Rightarrow>
                 Inr (Some (spec_mapping_response (request ! 1) NATPMP_NETWORK_FAILURE
                              (sssoe env now) (load16 request 4) (sin_port d1)
                              (load32 request 8)),
                      rebuild_if count s1)))
     \<and> (\<forall>count d1 s1.
           natpmp_create_mapping (request_proto request) (sock\<lparr>sin_port := load16 request 4\<rparr>)
             (external_sockaddr 0 (load16 request 6)) (load32 request 8) new draw s
             = Inr (count, d1, s1) \<longrightarrow>
           sin_addr d1 = 0
           \<and> (count \<noteq> 0 \<longrightarrow>
                (\<exists>a. mappings s1 =
                   (a, \<lparr>proto = ucast (request_proto request), dst = d1,
                        rdr = sock\<lparr>sin_port := load16 request 4\<rparr>\<rparr>) # mappings s)))"
proof -
  from assms(2) have rc: "result_code env = NATPMP_NETWORK_FAILURE"
    by (simp add: result_code_def)
  have ne: "NATPMP_NETWORK_FAILURE \<noteq> NATPMP_SUCCESS"
    by (simp add: NATPMP_NETWORK_FAILURE_def NATPMP_SUCCESS_def)
  from assms(2) have d: "request_dst env request = external_sockaddr 0 (load16 request 6)"
    by (simp add: request_dst_def external_sockaddr_def IN6_IS_ADDR_V4MAPPED_ANY_def
        IN6ADDR_V4MAPPED_INIT_def s6_addr12_def)
  have r: "request_rdr sock request = sock\<lparr>sin_port := load16 request 4\<rparr>"
    by (simp add: request_rdr_def)
  have 1: "common_handler response_storage env now request sock new draw s =
            (if \<exists>x \<in> set (mappings s).
                  remove_match (request_proto request) (sock\<lparr>sin_port := load16 request 4\<rparr>)
                    (snd x)
             then Inl UseAfterFree
             else Inr (Some (spec_mapping_response (request ! 1) NATPMP_NETWORK_FAILURE
                               (sssoe env now) (load16 request 4) 0 0), s))"
    if "load16 request 4 = 0 \<or> load32 request 8 = 0"
  proof (cases "load16 request 4 = 0")
    case True
    then show ?thesis
      using handler_port0 [OF assms(1) True, of env now new draw s]
      by (simp add: common_handler_map [OF assms(1)] rc r)
  next
    case False
    with that have l: "load32 request 8 = 0" by simp
    show ?thesis
      using handler_lifetime0 [OF assms(1) False l, of env now new draw s]
      by (simp add: common_handler_map [OF assms(1)] rc r)
  qed
  have 2: "common_handler response_storage env now request sock new draw s =
            (case natpmp_create_mapping (request_proto request)
                    (sock\<lparr>sin_port := load16 request 4\<rparr>)
                    (external_sockaddr 0 (load16 request 6)) (load32 request 8) new draw s of
               Inl f \<Rightarrow> Inl f
             | Inr (count, d1, s1) \<Rightarrow>
                 Inr (Some (spec_mapping_response (request ! 1) NATPMP_NETWORK_FAILURE
                              (sssoe env now) (load16 request 4) (sin_port d1)
                              (load32 request 8)),
                      rebuild_if count s1))"
    if "load16 request 4 \<noteq> 0 \<and> load32 request 8 \<noteq> 0"
    using that handler_create [OF assms(1), of env now new draw s, unfolded rc r d]
    by (simp add: common_handler_map [OF assms(1)])
  have 3: "sin_addr d1 = 0
           \<and> (count \<noteq> 0 \<longrightarrow>
                (\<exists>a. mappings s1 =
                   (a, \<lparr>proto = ucast (request_proto request), dst = d1,
                        rdr = sock\<lparr>sin_port := load16 request 4\<rparr>\<rparr>) # mappings s))"
    if "natpmp_create_mapping (request_proto request) (sock\<lparr>sin_port := load16 request 4\<rparr>)
             (external_sockaddr 0 (load16 request 6)) (load32 request 8) new draw s
             = Inr (count, d1, s1)" for count d1 s1
    using create_result_shape [OF that] by (auto simp: external_sockaddr_def)
  from rc ne d 1 2 3 show ?thesis by blast
qed

theorem unspecified_address_still_maps_witness:
  "map_request ex_stack ex_map_tcp ex_sock
   \<and> IN6_IS_ADDR_V4MAPPED_ANY (sc_address ex_env_down)
   \<and> load16 ex_map_tcp 4 \<noteq> 0 \<and> load32 ex_map_tcp 8 \<noteq> 0
   \<and> (\<exists>s'. common_handler ex_stack ex_env_down 1060 ex_map_tcp ex_sock (Some 2) 7 ex_store =
             Inr (Some [0, 0x82, 0, 3, 0, 0, 0, 60, 0xAF, 0xC8, 0xC3, 0x50, 0, 0, 0x0E, 0x10], s')
          \<and> mappings s' =
               [(2, \<lparr>proto = 6, dst = external_sockaddr 0 50000, rdr = ex_client\<rparr>), (1, ex_udp)])
   \<and> map_request ex_stack ex_delete_tcp ex_sock \<and> load32 ex_delete_tcp 8 = 0
   \<and> common_handler ex_stack ex_env_down 1060 ex_delete_tcp ex_sock None 0 ex_store =
       Inr (Some [0, 0x82, 0, 3, 0, 0, 0, 60, 0xAF, 0xC8, 0, 0, 0, 0, 0, 0], ex_store)
   \<and> map_request ex_stack ex_delete_one ex_sock \<and> load32 ex_delete_one 8 = 0
   \<and> common_handler ex_stack ex_env_down 1060 ex_delete_one ex_sock None 0 ex_store =
       Inl UseAfterFree"
proof -
  have a: "IN6_IS_ADDR_V4MAPPED_ANY (sc_address ex_env_down)"
    by (simp add: ex_env_down_def IN6_IS_ADDR_V4MAPPED_ANY_def)
  have e: "sssoe ex_env_down 1060 = 60"
    by (simp add: ex_env_down_def ex_env_def sssoe_def)
  have c: "ex_sock\<lparr>sin_port := 45000\<rparr> = ex_client"
    by (simp add: ex_sock_def ex_client_def inet_sockaddr_def)
  have m: "mappings ex_store = [(1, ex_udp)]"
    "remove_match IPPROTO_UDP ex_client ex_udp" "\<not> remove_match IPPROTO_TCP ex_client ex_udp"
    by (simp_all add: ex_store_def remove_match_def ex_udp_def IPPROTO_UDP_def IPPROTO_TCP_def)
  from unspecified_address_still_maps [OF ex_requests_tcp(1) a, of 1060 "Some 2" 7 ex_store]
  have 1: "\<exists>s'. common_handler ex_stack ex_env_down 1060 ex_map_tcp ex_sock (Some 2) 7 ex_store =
             Inr (Some [0, 0x82, 0, 3, 0, 0, 0, 60, 0xAF, 0xC8, 0xC3, 0x50, 0, 0, 0x0E, 0x10], s')
          \<and> mappings s' =
               [(2, \<lparr>proto = 6, dst = external_sockaddr 0 50000, rdr = ex_client\<rparr>), (1, ex_udp)]"
    by (simp add: ex_requests_tcp e c ex_related spec_mapping_response_def NATPMPD_MAX_VERSION_def
        ex_bytes mappings_rebuild_if NATPMP_NETWORK_FAILURE_def)
      (simp add: ex_map_tcp_def ex_store_def external_sockaddr_def)
  from unspecified_address_still_maps [OF ex_requests_delete_tcp(1) a, of 1060 None 0 ex_store]
  have 2: "common_handler ex_stack ex_env_down 1060 ex_delete_tcp ex_sock None 0 ex_store =
       Inr (Some [0, 0x82, 0, 3, 0, 0, 0, 60, 0xAF, 0xC8, 0, 0, 0, 0, 0, 0], ex_store)"
    by (simp add: ex_requests_delete_tcp e c m spec_mapping_response_def NATPMPD_MAX_VERSION_def
        ex_bytes NATPMP_NETWORK_FAILURE_def)
      (simp add: ex_delete_tcp_def)
  from unspecified_address_still_maps [OF ex_requests(2) a, of 1060 None 0 ex_store]
  have 3: "common_handler ex_stack ex_env_down 1060 ex_delete_one ex_sock None 0 ex_store =
       Inl UseAfterFree"
    by (simp add: ex_requests c m)
  from 1 2 3 a ex_requests_tcp ex_requests ex_requests_delete_tcp show ?thesis by simp
qed

subsection \<open>Unsupported opcodes\<close>

lemma length_store_bytes:
  "off + length bs \<le> length buf \<Longrightarrow> length (store_bytes off bs buf) = length buf"
  by (simp add: store_bytes_def)

lemma unsupported_bytes:
  assumes "2 \<le> length request"
  shows "take (length request)
           (store_bytes 1 [op'] (store_bytes 2 [h, l] (store_bytes 0 request resp)))
         = take (length request) ([request ! 0, op', h, l] @ drop 4 request)"
proof -
  from assms obtain v op rest where r: "request = v # op # rest"
    by (cases request; cases "tl request") auto
  show ?thesis
  proof (cases rest)
    case Nil
    with r show ?thesis by (simp add: store_bytes_def)
  next
    case (Cons a rest1)
    show ?thesis
    proof (cases rest1)
      case Nil
      with r Cons show ?thesis by (simp add: store_bytes_def)
    next
      case (Cons b rest2)
      with r \<open>rest = a # rest1\<close> show ?thesis by (simp add: store_bytes_def)
    qed
  qed
qed

lemma unsupported_opcode_bytes:
  assumes "unsupported_request response_storage request sock"
  shows "common_handler response_storage env now request sock new draw s =
           Inr (Some (take (length request)
                        ([request ! 0, (request ! 1) OR 0x80] @ be16 NATPMP_UNSUPP_OPCODE
                           @ drop 4 request)), s)
         \<and> length (take (length request)
                     ([request ! 0, (request ! 1) OR 0x80] @ be16 NATPMP_UNSUPP_OPCODE
                        @ drop 4 request)) = length request"
proof -
  from assms have a: "sin_family sock = AF_INET" "16 \<le> length response_storage"
    "2 \<le> length request" "length request \<le> length response_storage"
    "request ! 0 = 0" "(request ! 1) AND 0x80 = 0"
    "request ! 1 \<noteq> NATPMP_OPCODE_ANNOUNCE" "request ! 1 \<noteq> NATPMP_OPCODE_MAP_UDP"
    "request ! 1 \<noteq> NATPMP_OPCODE_MAP_TCP"
    by (simp_all add: unsupported_request_def)
  let ?resp = "store_bytes 2 (be16 (result_code env))
                 (store_bytes 4 (be32 (sssoe env now))
                    (store_bytes 0 [NATPMPD_MAX_VERSION] response_storage))"
  from a(2) have l: "length ?resp = length response_storage"
    by (simp add: length_store_bytes be16_def be32_def)
  have h: "natpmp_handler response_storage env now request sock new draw s =
        Inr (Some (send_response request (length request)
                     (store_bytes 2 (be16 NATPMP_UNSUPP_OPCODE) (store_bytes 0 request ?resp))), s)"
    using a l
    unfolding natpmp_handler_def Let_def result_code_def htonl_def
    by (simp add: NATPMP_MAX_VERSION_def)
  have b: "send_response request (length request)
             (store_bytes 2 (be16 NATPMP_UNSUPP_OPCODE) (store_bytes 0 request ?resp))
           = take (length request)
               ([request ! 0, (request ! 1) OR 0x80] @ be16 NATPMP_UNSUPP_OPCODE @ drop 4 request)"
    unfolding send_response_def be16_def [of NATPMP_UNSUPP_OPCODE]
    using unsupported_bytes [OF a(3)] by simp
  have c: "common_handler response_storage env now request sock new draw s =
           natpmp_handler response_storage env now request sock new draw s"
    using a by (auto simp: common_handler_def)
  from a(3) have d: "length (take (length request)
                     ([request ! 0, (request ! 1) OR 0x80] @ be16 NATPMP_UNSUPP_OPCODE
                        @ drop 4 request)) = length request"
    by (simp add: be16_def)
  from h b c d show ?thesis by simp
qed

lemma top_bit_dropped:
  "(request ! 1) AND 0x80 \<noteq> 0 \<Longrightarrow>
   common_handler response_storage env now request sock new draw s = Inr (None, s)"
  by (simp add: common_handler_def)

text \<open>
  Claim C8, as amended. A request of version 0 from an IPv4 sender, with an opcode below
  128 that is not announce, map UDP or map TCP, and no longer than the response array,
  is answered with as many bytes as it has: the request's bytes, except that the opcode
  byte has its top bit set and that bytes 2 and 3, as far as the length reaches, hold
  the unsupported-opcode code. The store is unchanged. A request whose opcode has the
  top bit set is dropped: nothing is sent and the store is unchanged.
\<close>

theorem unsupported_opcode_response:
  "(unsupported_request response_storage request sock \<longrightarrow>
      common_handler response_storage env now request sock new draw s =
        Inr (Some (take (length request)
                     ([request ! 0, (request ! 1) OR 0x80] @ be16 NATPMP_UNSUPP_OPCODE
                        @ drop 4 request)), s)
      \<and> length (take (length request)
                  ([request ! 0, (request ! 1) OR 0x80] @ be16 NATPMP_UNSUPP_OPCODE
                     @ drop 4 request)) = length request)
   \<and> (2 \<le> length request \<and> (request ! 1) AND 0x80 \<noteq> 0 \<longrightarrow>
        common_handler response_storage env now request sock new draw s = Inr (None, s))"
  using unsupported_opcode_bytes [of response_storage request sock env now new draw s]
    top_bit_dropped [of request response_storage env now sock new draw s]
  by blast

theorem unsupported_opcode_response_witness:
  "unsupported_request ex_stack ex_unsupported ex_sock
   \<and> common_handler ex_stack ex_env 1060 ex_unsupported ex_sock None 0 ex_store =
       Inr (Some [0, 0x83, 0, 5, 1, 2], ex_store)
   \<and> 2 \<le> length [0, 0x83, 0, 0 :: u8] \<and> ([0, 0x83, 0, 0 :: u8] ! 1) AND 0x80 \<noteq> 0
   \<and> common_handler ex_stack ex_env 1060 [0, 0x83, 0, 0] ex_sock None 0 ex_store =
       Inr (None, ex_store)"
proof -
  have u: "unsupported_request ex_stack ex_unsupported ex_sock"
    by (simp add: unsupported_request_def ex_stack_def ex_unsupported_def ex_sock_def
        inet_sockaddr_def NATPMP_OPCODE_ANNOUNCE_def NATPMP_OPCODE_MAP_UDP_def
        NATPMP_OPCODE_MAP_TCP_def)
  have t: "2 \<le> length [0, 0x83, 0, 0 :: u8]" "([0, 0x83, 0, 0 :: u8] ! 1) AND 0x80 \<noteq> 0"
    by simp_all
  from unsupported_opcode_response [of ex_stack ex_unsupported ex_sock ex_env 1060 None 0 ex_store] u
  have 1: "common_handler ex_stack ex_env 1060 ex_unsupported ex_sock None 0 ex_store =
       Inr (Some [0, 0x83, 0, 5, 1, 2], ex_store)"
    by (simp add: ex_unsupported_def NATPMP_UNSUPP_OPCODE_def ex_bytes)
  from unsupported_opcode_response [of ex_stack "[0, 0x83, 0, 0]" ex_sock ex_env 1060 None 0 ex_store] t
  have 2: "common_handler ex_stack ex_env 1060 [0, 0x83, 0, 0] ex_sock None 0 ex_store =
       Inr (None, ex_store)"
    by blast
  from u t 1 2 show ?thesis by simp
qed

text \<open>The claim as stated fails: the opcode byte of the response is not the request's,
  a request of two bytes is answered with two bytes that hold no result field, a
  request whose opcode has the top bit set is not answered, nor is one whose sender is
  not an IPv4 sender, and a request of 17 bytes does not fit a response array of 16
  bytes.\<close>

theorem unsupported_opcode_not_verbatim:
  "common_handler ex_stack ex_env 1060 ex_unsupported ex_sock None 0 ex_store =
     Inr (Some [0, 0x83, 0, 5, 1, 2], ex_store)
   \<and> ([0, 0x83, 0, 5, 1, 2] :: u8 list) \<noteq> store_bytes 2 (be16 NATPMP_UNSUPP_OPCODE) ex_unsupported
   \<and> store_bytes 2 (be16 NATPMP_UNSUPP_OPCODE) ex_unsupported = [0, 3, 0, 5, 1, 2]
   \<and> common_handler ex_stack ex_env 1060 [0, 3] ex_sock None 0 ex_store =
       Inr (Some [0, 0x83], ex_store)
   \<and> common_handler ex_stack ex_env 1060 [0, 0x83, 0, 0] ex_sock None 0 ex_store =
       Inr (None, ex_store)
   \<and> common_handler ex_stack ex_env 1060 ex_unsupported (ex_sock\<lparr>sin_family := 24\<rparr>) None 0
       ex_store = Inr (None, ex_store)
   \<and> length ex_stack = 16
   \<and> common_handler ex_stack ex_env 1060 (0 # 3 # replicate 15 0) ex_sock None 0 ex_store =
       Inl Overflow"
  by (simp add: common_handler_def natpmp_handler_def Let_def ex_stack_def ex_unsupported_def
      ex_sock_def inet_sockaddr_def send_response_def store_bytes_def ex_bytes
      NATPMP_UNSUPP_OPCODE_def NATPMP_MAX_VERSION_def NATPMP_OPCODE_ANNOUNCE_def
      NATPMP_OPCODE_MAP_UDP_def NATPMP_OPCODE_MAP_TCP_def be16_def be32_def AF_INET_def)

subsection \<open>The announcements\<close>

lemma length_timeouts: "length timeouts = 10"
  by (simp add: timeouts_def)

lemma announce_sends_same:
  "announce_sends (env\<lparr>sc_delay := d, sc_announce_ev := e\<rparr>) = announce_sends env"
  "announce_sends (env\<lparr>sc_announce_ev := e\<rparr>) = announce_sends env"
  "announce_sends (env\<lparr>sc_delay := d\<rparr>) = announce_sends env"
  by (simp_all add: announce_sends_def announce_packet_def sssoe_def fun_eq_iff)

lemma announce_run_idle:
  "sc_announce_ev env = None \<Longrightarrow> announce_run clock env = ([], env)"
  by (cases clock) simp_all

lemma announce_run_burst:
  assumes "sc_announce_ev env = Some (timeouts ! k)" and "sc_delay env = k" and "k < 10"
    and "10 - k \<le> length clock"
  shows "announce_run clock env =
           (zip (drop k timeouts) (map (announce_sends env) clock),
            env\<lparr>sc_delay := 10, sc_announce_ev := None\<rparr>)"
  using assms
proof (induction clock arbitrary: env k)
  case Nil
  then show ?case by simp
next
  case (Cons now clock)
  have d: "drop k timeouts = timeouts ! k # drop (Suc k) timeouts"
    using Cons.prems(3) by (simp add: Cons_nth_drop_Suc length_timeouts)
  show ?case
  proof (cases "Suc k < 10")
    case True
    let ?env1 = "env\<lparr>sc_delay := Suc k, sc_announce_ev := Some (timeouts ! Suc k)\<rparr>"
    have a: "announce_address (env\<lparr>sc_announce_ev := None\<rparr>) now = (announce_sends env now, ?env1)"
      using True Cons.prems(2)
      by (simp add: announce_address_def Let_def NATPMPD_MAX_DELAY_def announce_sends_same)
    have "announce_run clock ?env1 =
           (zip (drop (Suc k) timeouts) (map (announce_sends ?env1) clock),
            ?env1\<lparr>sc_delay := 10, sc_announce_ev := None\<rparr>)"
      using True Cons.prems(4) by (intro Cons.IH) simp_all
    then show ?thesis
      using Cons.prems(1) a d by (simp add: announce_sends_same)
  next
    case False
    with Cons.prems(3) have k: "k = 9" by simp
    let ?env1 = "env\<lparr>sc_delay := 10, sc_announce_ev := None\<rparr>"
    have a: "announce_address (env\<lparr>sc_announce_ev := None\<rparr>) now = (announce_sends env now, ?env1)"
      using k Cons.prems(2)
      by (simp add: announce_address_def Let_def NATPMPD_MAX_DELAY_def announce_sends_same)
    have "announce_run clock ?env1 = ([], ?env1)" by (simp add: announce_run_idle)
    then show ?thesis
      using Cons.prems(1) a d k by (simp add: length_timeouts)
  qed
qed

lemma check_interface_trigger:
  assumes "check_interface ifaddrs env = Inr env1" and "sc_address env1 \<noteq> sc_address env"
    and "sc_address env1 \<noteq> IN6ADDR_V4MAPPED_INIT"
  shows "env1 = env\<lparr>sc_address := sc_address env1, sc_announce_ev := Some (timeouts ! 0),
                    sc_delay := 0\<rparr>"
  using assms
  by (auto simp: check_interface_def Let_def split: option.splits if_splits)

lemma ex_trigger:
  "check_interface (Some ex_ifaddrs) ex_env = Inr ex_env_up"
  "sc_address ex_env_up \<noteq> sc_address ex_env"
  "sc_address ex_env_up \<noteq> IN6ADDR_V4MAPPED_INIT"
  "10 \<le> length ex_clock"
  "ipv4_sockets ex_env = [3, 5]"
  "sc_announce_ev ex_env_up = Some (timeouts ! 0)" "sc_delay ex_env_up = 0"
  by (simp_all add: check_interface_def ex_ifaddrs_def ex_env_def ex_env_up_def Let_def
      IN6ADDR_V4MAPPED_INIT_def AF_INET_def timeouts_def ex_clock_def ipv4_sockets_def)

text \<open>
  Claim C9, as amended. When \<^verbatim>\<open>check_interface\<close> finds a new, specified address it sets
  the index to 0 and arms the timer with the first timeout. The timer then fires
  exactly ten times, the k-th time after the k-th timeout of the table; each time the
  twelve-byte announcement goes out once on every IPv4 listening socket, which makes ten
  packets per socket; after the tenth time no timer is pending and nothing more fires.
\<close>

theorem announcement_burst:
  assumes "check_interface ifaddrs env = Inr env1" and "sc_address env1 \<noteq> sc_address env"
    and "sc_address env1 \<noteq> IN6ADDR_V4MAPPED_INIT" and "10 \<le> length clock"
  shows "sc_delay env1 = 0 \<and> sc_announce_ev env1 = Some (timeouts ! 0)
       \<and> (\<exists>fired env2. announce_run clock env1 = (fired, env2)
            \<and> length fired = 10 \<and> map fst fired = timeouts
            \<and> map snd fired = map (announce_sends env1) (take 10 clock)
            \<and> list_all (\<lambda>sent. map fst sent = ipv4_sockets env \<and> list_all (\<lambda>p. length (snd p) = 12) sent)
                 (map snd fired)
            \<and> length (concat (map snd fired)) = 10 * length (ipv4_sockets env)
            \<and> sc_announce_ev env2 = None
            \<and> announce_run clock2 env2 = ([], env2))"
proof -
  from check_interface_trigger [OF assms(1-3)]
  have e: "env1 = env\<lparr>sc_address := sc_address env1, sc_announce_ev := Some (timeouts ! 0),
                    sc_delay := 0\<rparr>" .
  have s: "sc_delay env1 = 0" "sc_announce_ev env1 = Some (timeouts ! 0)"
    "listen_addrs env1 = listen_addrs env"
    by (subst e, simp)+
  let ?fired = "zip timeouts (map (announce_sends env1) clock)"
  let ?env2 = "env1\<lparr>sc_delay := 10, sc_announce_ev := None\<rparr>"
  from announce_run_burst [OF s(2) s(1), of clock] assms(4)
  have r: "announce_run clock env1 = (?fired, ?env2)" by simp
  have l: "length ?fired = 10" using assms(4) by (simp add: length_timeouts)
  have f: "map fst ?fired = timeouts"
    using assms(4) by (simp add: map_fst_zip_take length_timeouts)
  have g: "map snd ?fired = map (announce_sends env1) (take 10 clock)"
    using assms(4) by (simp add: map_snd_zip_take length_timeouts take_map min_def)
  have n: "map fst (announce_sends env1 now) = ipv4_sockets env
      \<and> list_all (\<lambda>p. length (snd p) = 12) (announce_sends env1 now)" for now
    by (simp add: announce_sends_def ipv4_sockets_def s(3) list_all_iff announce_packet_def
        be16_def be32_def comp_def)
  have h: "list_all (\<lambda>sent. map fst sent = ipv4_sockets env
      \<and> list_all (\<lambda>p. length (snd p) = 12) sent) (map snd ?fired)"
    unfolding g using n by (simp add: list_all_iff)
  have len: "length (announce_sends env1 now) = length (ipv4_sockets env)" for now
    by (simp add: announce_sends_def ipv4_sockets_def s(3))
  have "length (concat (map (announce_sends env1) xs)) = length xs * length (ipv4_sockets env)" for xs
    by (induction xs) (simp_all add: len)
  from this [of "take 10 clock"] assms(4)
  have c: "length (concat (map snd ?fired)) = 10 * length (ipv4_sockets env)"
    unfolding g by simp
  have i: "announce_run clock2 ?env2 = ([], ?env2)" by (simp add: announce_run_idle)
  from s r l f g h c i show ?thesis by simp
qed

theorem announcement_burst_witness:
  "check_interface (Some ex_ifaddrs) ex_env = Inr ex_env_up
   \<and> sc_address ex_env_up \<noteq> sc_address ex_env
   \<and> sc_address ex_env_up \<noteq> IN6ADDR_V4MAPPED_INIT \<and> 10 \<le> length ex_clock
   \<and> length (fst (announce_run ex_clock ex_env_up)) = 10
   \<and> map fst (fst (announce_run ex_clock ex_env_up)) = timeouts
   \<and> length (concat (map snd (fst (announce_run ex_clock ex_env_up)))) = 20
   \<and> sc_announce_ev (snd (announce_run ex_clock ex_env_up)) = None"
proof -
  from announcement_burst [OF ex_trigger(1-4), where ?clock2.0 = "[]"]
  obtain fired env2 where "announce_run ex_clock ex_env_up = (fired, env2)"
    and "length fired = 10" and "map fst fired = timeouts"
    and "length (concat (map snd fired)) = 10 * length (ipv4_sockets ex_env)"
    and "sc_announce_ev env2 = None"
    by blast
  with ex_trigger(1-5) show ?thesis by simp
qed

text \<open>The claim as stated fails: with two IPv4 listening sockets the ten firings send
  twenty packets.\<close>

theorem announcement_sends_on_every_socket:
  "check_interface (Some ex_ifaddrs) ex_env = Inr ex_env_up
   \<and> ipv4_sockets ex_env = [3, 5]
   \<and> length (fst (announce_run ex_clock ex_env_up)) = 10
   \<and> length (concat (map snd (fst (announce_run ex_clock ex_env_up)))) = 20"
proof -
  have l: "length (announce_sends ex_env_up now) = 2" for now
    by (simp add: announce_sends_def ex_env_up_def ex_env_def AF_INET_def)
  have c: "length (concat (map (announce_sends ex_env_up) xs)) = 2 * length xs" for xs
    by (induction xs) (simp_all add: l)
  have m: "map snd (zip timeouts (map (announce_sends ex_env_up) ex_clock))
      = map (announce_sends ex_env_up) (take 10 ex_clock)"
    using ex_trigger(4) by (simp add: map_snd_zip_take length_timeouts take_map min_def)
  from announce_run_burst [OF ex_trigger(6) ex_trigger(7), of ex_clock] ex_trigger(4)
  have r: "fst (announce_run ex_clock ex_env_up)
      = zip timeouts (map (announce_sends ex_env_up) ex_clock)"
    by simp
  have "length (fst (announce_run ex_clock ex_env_up)) = 10"
    using ex_trigger(4) by (simp add: r length_timeouts)
  moreover have "length (concat (map snd (fst (announce_run ex_clock ex_env_up)))) = 20"
    using ex_trigger(4) by (simp add: r m c)
  ultimately show ?thesis using ex_trigger(1,5) by simp
qed

end
